theory Spec2Isabelle
  imports Main "HOL-Library.Log_Nat" "HOL-Library.Word"
begin

section \<open>JavaScript numbers\<close>

text \<open>
  Every \<^verbatim>\<open>number\<close> of the TypeScript sources is an ECMAScript Number: an IEEE 754
  binary64 value with a single NaN.  A finite value is kept as its three bit fields:
  the sign (\<open>True\<close> is negative), the biased exponent field \<open>e\<close> and the fraction
  field \<open>f\<close>.  With \<open>e = 0\<close> the value is \<open>f * 2^-1074\<close> (zero and the subnormals),
  otherwise it is \<open>(2^52 + f) * 2^(e - 1075)\<close>.  Equality of two values of this type
  is equality of their bits.
\<close>

datatype number = NaN | Infinity bool | Finite bool nat nat

fun is_number :: "number \<Rightarrow> bool" where
  "is_number NaN = True"
| "is_number (Infinity s) = True"
| "is_number (Finite s e f) = (e < 2047 \<and> f < 2 ^ 52)"

definition significand :: "nat \<Rightarrow> nat \<Rightarrow> nat" where
  "significand e f = (if e = 0 then f else 2 ^ 52 + f)"

definition exponent :: "nat \<Rightarrow> int" where
  "exponent e = (if e = 0 then - 1074 else int e - 1075)"

text \<open>
  \<open>shiftRightTiesToEven m k\<close> is \<open>m / 2^k\<close> rounded to the nearest integer, a tie
  going to the even neighbour.
\<close>

definition shiftRightTiesToEven :: "nat \<Rightarrow> nat \<Rightarrow> nat" where
  "shiftRightTiesToEven m k =
     (let d = m div 2 ^ k; r = m mod 2 ^ k
      in if 2 * r > 2 ^ k \<or> (2 * r = 2 ^ k \<and> odd d) then d + 1 else d)"

text \<open>
  \<open>roundTiesToEven s m e\<close> is the Number value for \<open>(-1)^s * m * 2^e\<close>: the
  significand is brought to 53 bits (fewer in the subnormal range), rounded to nearest
  with ties to even, and a result beyond the largest finite value is an infinity.
\<close>

definition roundTiesToEven :: "bool \<Rightarrow> nat \<Rightarrow> int \<Rightarrow> number" where
  "roundTiesToEven s m e =
     (if m = 0 then Finite s 0 0
      else
        let q = max (e + int (floorlog 2 m) - 53) (- 1074);
            r = (if q \<le> e then m * 2 ^ nat (e - q) else shiftRightTiesToEven m (nat (q - e)));
            q' = (if r = 2 ^ 53 then q + 1 else q);
            r' = (if r = 2 ^ 53 then 2 ^ 52 else r)
        in if r' < 2 ^ 52 then Finite s 0 r'
           else if 2047 \<le> q' + 1075 then Infinity s
           else Finite s (nat (q' + 1075)) (r' - 2 ^ 52))"

text \<open>The operator \<^verbatim>\<open>*\<close> on two Numbers (ECMAScript Number::multiply).\<close>

fun js_mul :: "number \<Rightarrow> number \<Rightarrow> number" where
  "js_mul NaN y = NaN"
| "js_mul x NaN = NaN"
| "js_mul (Infinity s) (Infinity t) = Infinity (s \<noteq> t)"
| "js_mul (Infinity s) (Finite t e f) =
     (if e = 0 \<and> f = 0 then NaN else Infinity (s \<noteq> t))"
| "js_mul (Finite s e f) (Infinity t) =
     (if e = 0 \<and> f = 0 then NaN else Infinity (s \<noteq> t))"
| "js_mul (Finite s e f) (Finite t e' f') =
     roundTiesToEven (s \<noteq> t) (significand e f * significand e' f') (exponent e + exponent e')"

text \<open>The operator \<^verbatim>\<open>+\<close> on two Numbers (ECMAScript Number::add).\<close>

definition signedSignificand :: "bool \<Rightarrow> nat \<Rightarrow> nat \<Rightarrow> int" where
  "signedSignificand s e f = (if s then - int (significand e f) else int (significand e f))"

fun js_add :: "number \<Rightarrow> number \<Rightarrow> number" where
  "js_add NaN y = NaN"
| "js_add x NaN = NaN"
| "js_add (Infinity s) (Infinity t) = (if s = t then Infinity s else NaN)"
| "js_add (Infinity s) (Finite t e f) = Infinity s"
| "js_add (Finite s e f) (Infinity t) = Infinity t"
| "js_add (Finite s e f) (Finite t e' f') =
     (let q = min (exponent e) (exponent e');
          a = signedSignificand s e f * 2 ^ nat (exponent e - q)
            + signedSignificand t e' f' * 2 ^ nat (exponent e' - q)
      in if a = 0 then Finite (s \<and> t) 0 0
         else roundTiesToEven (a < 0) (nat \<bar>a\<bar>) q)"

text \<open>
  Comparison.  The bit fields of the binary64 format order the magnitudes, so the
  signed key below orders the values; the two zeros share the key 0.  \<open>js_gt\<close> is
  \<^verbatim>\<open>>\<close>, \<open>js_strict_eq\<close> is \<^verbatim>\<open>===\<close> (both false on NaN) and \<open>sameValueZero\<close>
  is the key comparison of a \<^verbatim>\<open>Map\<close>.
\<close>

fun orderKey :: "number \<Rightarrow> int" where
  "orderKey NaN = 0"
| "orderKey (Infinity s) = (if s then - (2047 * 2 ^ 52) else 2047 * 2 ^ 52)"
| "orderKey (Finite s e f) = (if s then - int (e * 2 ^ 52 + f) else int (e * 2 ^ 52 + f))"

definition js_gt :: "number \<Rightarrow> number \<Rightarrow> bool" where
  "js_gt x y = (x \<noteq> NaN \<and> y \<noteq> NaN \<and> orderKey y < orderKey x)"

definition js_strict_eq :: "number \<Rightarrow> number \<Rightarrow> bool" where
  "js_strict_eq x y = (x \<noteq> NaN \<and> y \<noteq> NaN \<and> orderKey x = orderKey y)"

definition sameValueZero :: "number \<Rightarrow> number \<Rightarrow> bool" where
  "sameValueZero x y = (if x = NaN \<or> y = NaN then x = y else orderKey x = orderKey y)"

text \<open>The literals \<^verbatim>\<open>0\<close> and \<^verbatim>\<open>1\<close>, and the Number of a non-negative integer.\<close>

definition js_zero :: number where
  "js_zero = Finite False 0 0"

definition js_one :: number where
  "js_one = Finite False 1023 0"

definition number_of_nat :: "nat \<Rightarrow> number" where
  "number_of_nat n = roundTiesToEven False n 0"

section \<open>The extraction script: stat multipliers\<close>

text \<open>
  \<^verbatim>\<open>type StatMultiplier = [number, number, number, number]\<close> is
  \<open>[TamingAdd, TamingMult, DomLevel, WildLevel]\<close>; a raw stat is the 5-tuple
  \<open>[BaseValue, IncPerWildLevel, IncPerDomLevel, AddWhenTamed, MultAffinity]\<close>.
\<close>

type_synonym StatMultiplier = "number \<times> number \<times> number \<times> number"

type_synonym RawStat = "number \<times> number \<times> number \<times> number \<times> number"

definition DEFAULT_STAT_MULT :: StatMultiplier where
  "DEFAULT_STAT_MULT = (js_one, js_one, js_one, js_one)"

fun applyStatMultiplier :: "RawStat \<Rightarrow> StatMultiplier \<Rightarrow> RawStat" where
  "applyStatMultiplier (base, incWild, incDom, addTamed, multAff) (mult0, mult1, mult2, mult3) =
     (base,
      js_mul incWild mult3,
      js_mul incDom mult2,
      js_mul addTamed (if js_gt addTamed js_zero then mult0 else js_one),
      js_mul multAff (if js_gt multAff js_zero then mult1 else js_one))"


section \<open>The extraction script: colour table and species metadata\<close>

text \<open>
  An array read \<^verbatim>\<open>xs[i]\<close> gives \<^verbatim>\<open>undefined\<close> past the end of the array.
\<close>

definition nth_opt :: "'a list \<Rightarrow> nat \<Rightarrow> 'a option" where
  "nth_opt xs i = (if i < length xs then Some (xs ! i) else None)"

text \<open>
  The upstream document \<^verbatim>\<open>ValuesJson\<close>.  An optional member (\<^verbatim>\<open>colors?\<close>) and a
  \<^verbatim>\<open>null\<close> array slot are both \<open>None\<close>: the script tests them with \<^verbatim>\<open>!= null\<close>,
  \<^verbatim>\<open>?.\<close> and \<^verbatim>\<open>??\<close>, which do not tell \<^verbatim>\<open>null\<close> from \<^verbatim>\<open>undefined\<close>.  The members
  the script never reads (\<^verbatim>\<open>displayedStats\<close>, \<^verbatim>\<open>taming\<close>, \<^verbatim>\<open>breeding\<close>) are left
  out.  Record fields share one name space, so the members of \<^verbatim>\<open>RawSpecies\<close> carry the
  prefix \<open>sp_\<close> where \<^verbatim>\<open>SpeciesMetaEntry\<close> has a member of the same name, and \<^verbatim>\<open>id\<close>
  and \<^verbatim>\<open>name\<close> of a colour are \<open>color_id\<close> and \<open>color_name\<close>.
\<close>

type_synonym rgba = "number \<times> number \<times> number \<times> number"

record ColorRegion =
  region_name :: string
  region_colors :: "string list option"

record RawSpecies =
  sp_name :: string
  sp_statNames :: "(string \<times> string) list option"
  sp_colors :: "ColorRegion option list option"
  sp_fullStatsRaw :: "number list option list option"
  TamedBaseHealthMultiplier :: "number option"
  statImprintMult :: "number list option"

record ValuesJson =
  colorDefinitions :: "(string \<times> rgba) list"
  dyeDefinitions :: "(string \<times> rgba) list"
  species :: "RawSpecies list"

text \<open>
  The colour ids are the loop counters \<^verbatim>\<open>i + 1\<close> and \<^verbatim>\<open>201 + i\<close>, integers far
  below \<open>2^53\<close>, where Number arithmetic is exact: they are kept as \<open>nat\<close>.
\<close>

record ArkColorEntry =
  color_id :: nat
  color_name :: string
  linearRgba :: rgba
  isDye :: bool

record SpeciesMetaEntry =
  enabledColorRegions :: "bool list"
  usedStats :: "bool list"
  statNames :: "(string \<times> string) list option"
  colorRegionNames :: "string option list"
  fullStatsRaw :: "RawStat option list"
  tamedBaseHealthMultiplier :: number
  statImprintMultipliers :: "number list"

text \<open>
  Each loop \<^verbatim>\<open>for (let i = 0; i < n; i++) xs.push(f(i))\<close> over an array that starts
  empty is \<open>map f [0..<n]\<close>.
\<close>

definition extractColors :: "ValuesJson \<Rightarrow> ArkColorEntry list" where
  "extractColors values =
     map (\<lambda>i. case colorDefinitions values ! i of (name, rgba) \<Rightarrow>
            \<lparr>color_id = i + 1, color_name = name, linearRgba = rgba, isDye = False\<rparr>)
         [0..<length (colorDefinitions values)]
     @ map (\<lambda>i. case dyeDefinitions values ! i of (name, rgba) \<Rightarrow>
            \<lparr>color_id = 201 + i, color_name = name, linearRgba = rgba, isDye = True\<rparr>)
         [0..<length (dyeDefinitions values)]"

text \<open>The two branches of \<^verbatim>\<open>if (sp.colors)\<close>; \<open>region\<close> is \<^verbatim>\<open>sp.colors[i]\<close>.\<close>

definition regionAt :: "RawSpecies \<Rightarrow> nat \<Rightarrow> ColorRegion option" where
  "regionAt sp i =
     (case sp_colors sp of
        None \<Rightarrow> None
      | Some cs \<Rightarrow> (case nth_opt cs i of Some (Some region) \<Rightarrow> Some region | _ \<Rightarrow> None))"

definition extractEnabledColorRegions :: "RawSpecies \<Rightarrow> bool list" where
  "extractEnabledColorRegions sp =
     (case sp_colors sp of
        Some cs \<Rightarrow> map (\<lambda>i. regionAt sp i \<noteq> None) [0..<6]
      | None \<Rightarrow> map (\<lambda>i. False) [0..<6])"

definition extractColorRegionNames :: "RawSpecies \<Rightarrow> string option list" where
  "extractColorRegionNames sp =
     (case sp_colors sp of
        Some cs \<Rightarrow> map (\<lambda>i. map_option region_name (regionAt sp i)) [0..<6]
      | None \<Rightarrow> map (\<lambda>i. None) [0..<6])"

text \<open>
  One round of the stat loop: \<open>raw\<close> is \<^verbatim>\<open>sp.fullStatsRaw?.[i]\<close>, and
  \<^verbatim>\<open>statMultipliers[i] ?? DEFAULT_STAT_MULT\<close> picks the multiplier.
\<close>

definition rawStatAt :: "RawSpecies \<Rightarrow> nat \<Rightarrow> number list option" where
  "rawStatAt sp i =
     (case sp_fullStatsRaw sp of
        None \<Rightarrow> None
      | Some rows \<Rightarrow> (case nth_opt rows i of Some (Some raw) \<Rightarrow> Some raw | _ \<Rightarrow> None))"

definition multiplierAt :: "StatMultiplier option list \<Rightarrow> nat \<Rightarrow> StatMultiplier" where
  "multiplierAt statMultipliers i =
     (case nth_opt statMultipliers i of Some (Some m) \<Rightarrow> m | _ \<Rightarrow> DEFAULT_STAT_MULT)"

definition extractStat :: "RawSpecies \<Rightarrow> StatMultiplier option list \<Rightarrow> nat \<Rightarrow> RawStat option" where
  "extractStat sp statMultipliers i =
     (case rawStatAt sp i of
        Some raw \<Rightarrow>
          if length raw \<ge> 5
          then Some (applyStatMultiplier (raw ! 0, raw ! 1, raw ! 2, raw ! 3, raw ! 4)
                       (multiplierAt statMultipliers i))
          else None
      | None \<Rightarrow> None)"

definition extractFullStatsRaw :: "RawSpecies \<Rightarrow> StatMultiplier option list \<Rightarrow> RawStat option list" where
  "extractFullStatsRaw sp statMultipliers = map (extractStat sp statMultipliers) [0..<12]"

text \<open>
  The loop of \<^verbatim>\<open>usedStats\<close> reads the array \<^verbatim>\<open>fullStatsRaw\<close> that the loop before it
  filled.
\<close>

definition extractUsedStats :: "RawStat option list \<Rightarrow> bool list" where
  "extractUsedStats stats =
     map (\<lambda>i. case nth_opt stats i of Some (Some t) \<Rightarrow> True | _ \<Rightarrow> False) [0..<12]"

definition extractStatImprintMultipliers :: "RawSpecies \<Rightarrow> number list" where
  "extractStatImprintMultipliers sp =
     map (\<lambda>i. case statImprintMult sp of
                 None \<Rightarrow> js_zero
               | Some xs \<Rightarrow> (case nth_opt xs i of Some x \<Rightarrow> x | None \<Rightarrow> js_zero))
         [0..<12]"

definition speciesMetaEntry :: "RawSpecies \<Rightarrow> StatMultiplier option list \<Rightarrow> SpeciesMetaEntry" where
  "speciesMetaEntry sp statMultipliers =
     (let stats = extractFullStatsRaw sp statMultipliers
      in \<lparr>enabledColorRegions = extractEnabledColorRegions sp,
          usedStats = extractUsedStats stats,
          statNames = sp_statNames sp,
          colorRegionNames = extractColorRegionNames sp,
          fullStatsRaw = stats,
          tamedBaseHealthMultiplier =
            (case TamedBaseHealthMultiplier sp of Some x \<Rightarrow> x | None \<Rightarrow> js_one),
          statImprintMultipliers = extractStatImprintMultipliers sp\<rparr>)"

text \<open>
  \<^verbatim>\<open>meta[sp.name] = {...}\<close> on the object \<^verbatim>\<open>meta\<close>, whose own properties are the table
  that \<^verbatim>\<open>JSON.stringify\<close> writes.  The assignment creates or replaces the own
  property \<^verbatim>\<open>sp.name\<close>, except for the key \<^verbatim>\<open>__proto__\<close>: there it calls the setter of
  \<^verbatim>\<open>Object.prototype\<close>, which changes the prototype of \<^verbatim>\<open>meta\<close> and adds no entry.
\<close>

definition assignProperty :: "(string \<rightharpoonup> 'a) \<Rightarrow> string \<Rightarrow> 'a \<Rightarrow> (string \<rightharpoonup> 'a)" where
  "assignProperty obj key v = (if key = ''__proto__'' then obj else obj(key \<mapsto> v))"

fun extractSpeciesLoop ::
  "(string \<rightharpoonup> SpeciesMetaEntry) \<Rightarrow> RawSpecies list \<Rightarrow> StatMultiplier option list
    \<Rightarrow> (string \<rightharpoonup> SpeciesMetaEntry)" where
  "extractSpeciesLoop meta [] statMultipliers = meta"
| "extractSpeciesLoop meta (sp # rest) statMultipliers =
     extractSpeciesLoop
       (assignProperty meta (sp_name sp) (speciesMetaEntry sp statMultipliers))
       rest statMultipliers"

definition extractSpeciesMeta ::
  "ValuesJson \<Rightarrow> StatMultiplier option list \<Rightarrow> (string \<rightharpoonup> SpeciesMetaEntry)" where
  "extractSpeciesMeta values statMultipliers =
     extractSpeciesLoop Map.empty (species values) statMultipliers"

text \<open>
  The main program's choice of multipliers.  \<open>smJson\<close> is the parsed multiplier document:
  \<open>None\<close> when \<^verbatim>\<open>readFileSync\<close> or \<^verbatim>\<open>JSON.parse\<close> throws, otherwise the presets of its
  \<^verbatim>\<open>serverMultiplierDictionary\<close> with the member \<^verbatim>\<open>statMultipliers\<close> of each (\<open>None\<close> when
  the preset has none).  Both fallbacks keep \<^verbatim>\<open>new Array(12).fill(null)\<close>.
\<close>

definition loadStatMultipliers ::
  "(string \<rightharpoonup> StatMultiplier option list option) option \<Rightarrow> string \<Rightarrow> StatMultiplier option list" where
  "loadStatMultipliers smJson preset =
     (case smJson of
        None \<Rightarrow> replicate 12 None
      | Some dictionary \<Rightarrow>
          (case dictionary preset of
             Some (Some statMultipliers) \<Rightarrow> statMultipliers
           | _ \<Rightarrow> replicate 12 None))"

section \<open>The worker: values, requests and responses\<close>

text \<open>
  What \<^verbatim>\<open>request.json()\<close> returns is a JSON value.  The result of a property read is
  a \<open>json option\<close>, \<open>None\<close> being \<^verbatim>\<open>undefined\<close>.
\<close>

datatype json =
    JNull
  | JBool bool
  | JNum number
  | JStr string
  | JArr "json list"
  | JObj "(string \<times> json) list"

type_synonym jsval = "json option"

text \<open>
  \<open>readProp v key\<close> is the read \<^verbatim>\<open>v.key\<close> on a value other than \<^verbatim>\<open>null\<close> (on \<^verbatim>\<open>null\<close> the
  read throws a TypeError, which each caller writes out).  The handler reads only the
  member names of \<^verbatim>\<open>InfographicRequestBody\<close>; none of them is a property of the
  prototype of an object, array, string, number or boolean, so the read finds an own
  property of an object or nothing.
\<close>

fun readProp :: "json \<Rightarrow> string \<Rightarrow> jsval" where
  "readProp (JObj properties) key = map_of properties key"
| "readProp v key = None"

text \<open>Truthiness (\<^verbatim>\<open>!v\<close> is its negation) and the operator \<^verbatim>\<open>??\<close>.\<close>

fun truthy :: "jsval \<Rightarrow> bool" where
  "truthy None = False"
| "truthy (Some JNull) = False"
| "truthy (Some (JBool b)) = b"
| "truthy (Some (JNum n)) = (n \<noteq> NaN \<and> \<not> js_strict_eq n js_zero)"
| "truthy (Some (JStr s)) = (s \<noteq> [])"
| "truthy (Some (JArr xs)) = True"
| "truthy (Some (JObj properties)) = True"

fun orDefault :: "jsval \<Rightarrow> json \<Rightarrow> json" where
  "orDefault None d = d"
| "orDefault (Some JNull) d = d"
| "orDefault (Some v) d = v"

type_synonym byte = "8 word"

datatype response_body = TextBody string | JsonBody json | BytesBody "byte list"

record response =
  status :: nat
  headers :: "(string \<times> string) list"
  body :: response_body

text \<open>
  A request, as \<^verbatim>\<open>fetch\<close> sees it: the \<^verbatim>\<open>pathname\<close> of \<^verbatim>\<open>new URL(request.url)\<close>, the
  method (\<open>httpMethod\<close> for \<^verbatim>\<open>request.method\<close>) and the text of the body, which is what
  \<^verbatim>\<open>request.text()\<close> returns: a sequence of Unicode code points.
\<close>

type_synonym codepoint = nat

record request =
  pathname :: string
  httpMethod :: string
  bodyText :: "codepoint list"

text \<open>
  \<^verbatim>\<open>Response.json(data, { status })\<close>, \<^verbatim>\<open>new Response(text, { status })\<close> and the
  rendered responses.
\<close>

definition jsonResponse :: "json \<Rightarrow> nat \<Rightarrow> response" where
  "jsonResponse data st =
     \<lparr>status = st, headers = [(''Content-Type'', ''application/json'')], body = JsonBody data\<rparr>"

definition textResponse :: "string \<Rightarrow> nat \<Rightarrow> response" where
  "textResponse content st =
     \<lparr>status = st, headers = [(''Content-Type'', ''text/plain;charset=UTF-8'')],
      body = TextBody content\<rparr>"

definition errorResponse :: "string \<Rightarrow> response" where
  "errorResponse message = jsonResponse (JObj [(''error'', JStr message)]) 400"

definition renderedResponse :: "string \<Rightarrow> response_body \<Rightarrow> response" where
  "renderedResponse contentType content =
     \<lparr>status = 200,
      headers = [(''Content-Type'', contentType), (''Cache-Control'', ''public, max-age=86400'')],
      body = content\<rparr>"

section \<open>The worker: species table and colour lookup\<close>

text \<open>
  \<^verbatim>\<open>speciesMap[name]\<close> reads a property of the object imported from
  \<^verbatim>\<open>species-meta.json\<close>: an own property if there is one, otherwise the property of that
  name that every object inherits from \<^verbatim>\<open>Object.prototype\<close>.  The inherited members are
  functions, and \<^verbatim>\<open>__proto__\<close> is \<^verbatim>\<open>Object.prototype\<close> itself: all of them are truthy and
  none is species metadata.
\<close>

datatype species_val = Meta SpeciesMetaEntry | Inherited string

definition objectPrototypeProperties :: "string list" where
  "objectPrototypeProperties =
     [''constructor'', ''__defineGetter__'', ''__defineSetter__'', ''hasOwnProperty'',
      ''__lookupGetter__'', ''__lookupSetter__'', ''isPrototypeOf'', ''propertyIsEnumerable'',
      ''toString'', ''valueOf'', ''__proto__'', ''toLocaleString'']"

definition getSpeciesInfo :: "(string \<times> SpeciesMetaEntry) list \<Rightarrow> string \<Rightarrow> species_val option" where
  "getSpeciesInfo speciesMap name =
     (case map_of speciesMap name of
        Some entry \<Rightarrow> Some (Meta entry)
      | None \<Rightarrow> if name \<in> set objectPrototypeProperties then Some (Inherited name) else None)"

definition getSpeciesNames :: "(string \<times> SpeciesMetaEntry) list \<Rightarrow> string list" where
  "getSpeciesNames speciesMap = map fst speciesMap"

text \<open>
  \<^verbatim>\<open>Color\<close> is \<open>(r, g, b, a)\<close>.  \<^verbatim>\<open>colorMap\<close> is a \<^verbatim>\<open>Map\<close> keyed by the Number ids of
  \<^verbatim>\<open>colors.json\<close>, the table \<open>extractColors\<close> wrote; a \<^verbatim>\<open>Map\<close> compares keys with
  SameValueZero, \<^verbatim>\<open>set\<close> replaces the value of a key it holds and appends a new key.
\<close>

type_synonym Color = "number \<times> number \<times> number \<times> number"

type_synonym SrgbColor = "number \<times> number \<times> number"

definition LIGHT_GRAY :: Color where
  "LIGHT_GRAY = (number_of_nat 211, number_of_nat 211, number_of_nat 211, number_of_nat 255)"

fun mapSet :: "(number \<times> 'a) list \<Rightarrow> number \<Rightarrow> 'a \<Rightarrow> (number \<times> 'a) list" where
  "mapSet [] key v = [(key, v)]"
| "mapSet ((k, x) # rest) key v =
     (if sameValueZero k key then (k, v) # rest else (k, x) # mapSet rest key v)"

fun mapGet :: "(number \<times> 'a) list \<Rightarrow> number \<Rightarrow> 'a option" where
  "mapGet [] key = None"
| "mapGet ((k, x) # rest) key = (if sameValueZero k key then Some x else mapGet rest key)"

fun colorMapLoop ::
  "(ArkColorEntry \<Rightarrow> SrgbColor) \<Rightarrow> (number \<times> Color) list \<Rightarrow> ArkColorEntry list
    \<Rightarrow> (number \<times> Color) list" where
  "colorMapLoop arkColorToSrgb colorMap [] = colorMap"
| "colorMapLoop arkColorToSrgb colorMap (entry # rest) =
     (case arkColorToSrgb entry of (r, g, b) \<Rightarrow>
        colorMapLoop arkColorToSrgb
          (mapSet colorMap (number_of_nat (color_id entry)) (r, g, b, number_of_nat 255)) rest)"

text \<open>
  \<^verbatim>\<open>v === n\<close> for a value \<open>v\<close> and a Number \<open>n\<close>, and \<^verbatim>\<open>colorMap.get(v)\<close>: a value that is
  not a Number is equal to no Number and is no key of the map.
\<close>

definition strictEqualsNumber :: "json \<Rightarrow> number \<Rightarrow> bool" where
  "strictEqualsNumber v n = (case v of JNum m \<Rightarrow> js_strict_eq m n | _ \<Rightarrow> False)"

definition colorMapGet :: "(number \<times> Color) list \<Rightarrow> json \<Rightarrow> Color option" where
  "colorMapGet colorMap v = (case v of JNum m \<Rightarrow> mapGet colorMap m | _ \<Rightarrow> None)"

definition getColor :: "(number \<times> Color) list \<Rightarrow> json \<Rightarrow> Color" where
  "getColor colorMap colorId =
     (if strictEqualsNumber colorId js_zero then LIGHT_GRAY
      else case colorMapGet colorMap colorId of Some c \<Rightarrow> c | None \<Rightarrow> LIGHT_GRAY)"

section \<open>The worker: the request handler\<close>

text \<open>
  \<^verbatim>\<open>CreatureData\<close>.  The handler casts the parsed body to \<^verbatim>\<open>InfographicRequestBody\<close>
  and checks only what \<open>validate\<close> below checks, so each member taken from the request
  is whatever JSON value the request gave, or the default; \<open>level\<close> and \<open>levelHatched\<close>
  are results of the operator \<^verbatim>\<open>+\<close>.
\<close>

record CreatureData =
  speciesName :: json
  creatureName :: json
  sex :: json
  isNeutered :: json
  isMutagenApplied :: json
  isBred :: json
  levelsWild :: json
  levelsDom :: json
  levelsMutated :: json
  valuesBreeding :: "number list"
  valuesCurrent :: "number list"
  colors :: json
  tamingEffectiveness :: json
  imprintingBonus :: json
  mutations :: json
  generation :: json
  level :: json
  levelHatched :: json

datatype sprite_get = SpriteObject "byte list" | SpriteNull | SpriteError

text \<open>
  A \<^verbatim>\<open>Uint8Array\<close> is a view of \<open>byteLength\<close> bytes at \<open>byteOffset\<close> into its \<open>buffer\<close>.
  Where the handler reads only the elements of the view, the view is the list of its
  elements; the array the PNG renderer returns is kept whole, because the handler reads
  its \<^verbatim>\<open>buffer\<close>.
\<close>

record uint8array =
  buffer :: "byte list"
  byteOffset :: nat
  byteLength :: nat

text \<open>
  What the handler is given from outside the repository: the run time (\<^verbatim>\<open>request.json\<close>,
  \<^verbatim>\<open>crypto.subtle.digest\<close>, \<^verbatim>\<open>btoa\<close>, the bucket \<^verbatim>\<open>env.SPRITES\<close>), the two bundled JSON
  tables, and the functions and constants of the library \<^verbatim>\<open>ark-infographic\<close>.  A library
  function that throws returns \<open>None\<close>; \<open>sprites\<close> gives for each key the object, \<^verbatim>\<open>null\<close>
  or a failed read.  Two conversions of the language are taken from the run time as
  well: \<open>stringToNumber\<close> is the Number that a string converts to, and
  \<open>otherNumberToString\<close> is the string of a Number that is not an integer below \<open>2^53\<close>
  in magnitude (the string of such an integer is computed by \<open>numberToString\<close> below).
\<close>

record env =
  jsonParse :: "codepoint list \<Rightarrow> json option"
  digestSHA256 :: "byte list \<Rightarrow> byte list"
  btoa :: "string \<Rightarrow> string"
  stringToNumber :: "string \<Rightarrow> number"
  otherNumberToString :: "number \<Rightarrow> string"
  sprites :: "string \<Rightarrow> sprite_get"
  speciesMetaJson :: "(string \<times> SpeciesMetaEntry) list"
  colorsJson :: "ArkColorEntry list"
  arkColorToSrgb :: "ArkColorEntry \<Rightarrow> SrgbColor"
  DEFAULT_CONFIG :: "(string \<times> json) list"
  DEFAULT_SERVER_SETTINGS :: "(string \<times> json) list"
  computeStatValues ::
    "species_val \<Rightarrow> json \<Rightarrow> json \<Rightarrow> json \<Rightarrow> json \<Rightarrow> json \<Rightarrow> json
      \<Rightarrow> (number list \<times> number list) option"
  colorizeCreature :: "byte list \<Rightarrow> byte list \<Rightarrow> SrgbColor option list \<Rightarrow> byte list option"
  renderInfoGraphicSvg ::
    "CreatureData \<Rightarrow> species_val \<Rightarrow> (string \<times> json) list \<Rightarrow> (string \<times> json) list
      \<Rightarrow> string option \<Rightarrow> string option"
  renderInfoGraphicPng ::
    "CreatureData \<Rightarrow> species_val \<Rightarrow> (string \<times> json) list \<Rightarrow> (string \<times> json) list
      \<Rightarrow> string option \<Rightarrow> uint8array option"

text \<open>
  The state a request can change: the shared cache, keyed by the URL of the key request,
  and the flag of \<^verbatim>\<open>init.ts\<close>.
\<close>

record world =
  cache :: "string \<rightharpoonup> response"
  initialized :: bool

text \<open>
  A run ends with a response or with an exception that nothing catches.  The events
  record, in order, the calls a run makes.
\<close>

datatype exn = TypeError | LibraryError

datatype outcome = Returned response | Threw exn

datatype event =
    CacheMatch string
  | GetSpeciesInfo json
  | ComputeStatValues species_val json json json json
  | SpriteGet string
  | ColorizeCreature "SrgbColor option list"
  | ConsoleError
  | InitRasterizer
  | RenderSvg CreatureData "string option"
  | RenderPng CreatureData "string option"
  | CachePut string response

subsection \<open>Conversions and operators of the language\<close>

text \<open>
  The handler applies \<^verbatim>\<open>+\<close>, \<^verbatim>\<open>>\<close>, a property key and template strings to members of
  the request whose type it has not checked, so these follow the conversions of
  ECMAScript on an arbitrary JSON value.

  \<open>numberToString\<close> is Number::toString in radix 10.  For an integer below \<open>2^53\<close> in
  magnitude it is the decimal numeral, \<^verbatim>\<open>-0\<close> giving \<^verbatim>\<open>0\<close>; \<open>safeInteger e f\<close> is the
  magnitude of the finite Number with the fields \<open>e\<close> and \<open>f\<close> if it is such an integer.
\<close>

definition decimalDigits :: string where
  "decimalDigits = ''0123456789''"

fun toDecimal :: "nat \<Rightarrow> string" where
  "toDecimal n =
     (if n < 10 then [decimalDigits ! n] else toDecimal (n div 10) @ [decimalDigits ! (n mod 10)])"

declare toDecimal.simps [simp del]

definition safeInteger :: "nat \<Rightarrow> nat \<Rightarrow> nat option" where
  "safeInteger e f =
     (let m = significand e f; x = exponent e
      in if m = 0 then Some 0
         else if 0 \<le> x then (if m * 2 ^ nat x < 2 ^ 53 then Some (m * 2 ^ nat x) else None)
         else if m mod 2 ^ nat (- x) = 0 then Some (m div 2 ^ nat (- x))
         else None)"

definition numberToString :: "env \<Rightarrow> number \<Rightarrow> string" where
  "numberToString env x =
     (case x of
        NaN \<Rightarrow> ''NaN''
      | Infinity s \<Rightarrow> (if s then ''-Infinity'' else ''Infinity'')
      | Finite s e f \<Rightarrow>
          (case safeInteger e f of
             Some k \<Rightarrow> (if s \<and> 0 < k then ''-'' else []) @ toDecimal k
           | None \<Rightarrow> otherNumberToString env x))"

text \<open>
  \<open>jsToString\<close> is ToString, \<open>None\<close> standing for a TypeError.  An array converts by
  \<^verbatim>\<open>join\<close>: its elements converted and separated by commas, \<^verbatim>\<open>null\<close> giving the empty
  string.  An object parsed from JSON converts by \<^verbatim>\<open>Object.prototype.toString\<close> unless it
  has an own member \<^verbatim>\<open>toString\<close>, which is never a function: then neither \<^verbatim>\<open>toString\<close>
  nor the inherited \<^verbatim>\<open>valueOf\<close> yields a primitive value and the conversion throws.
\<close>

fun joinWith :: "string \<Rightarrow> string list \<Rightarrow> string" where
  "joinWith separator [] = []"
| "joinWith separator [s] = s"
| "joinWith separator (s # t # rest) = s @ separator @ joinWith separator (t # rest)"

fun jsToString :: "env \<Rightarrow> json \<Rightarrow> string option" where
  "jsToString env JNull = Some ''null''"
| "jsToString env (JBool b) = Some (if b then ''true'' else ''false'')"
| "jsToString env (JNum n) = Some (numberToString env n)"
| "jsToString env (JStr s) = Some s"
| "jsToString env (JArr xs) =
     map_option (joinWith '','')
       (those (map (\<lambda>x. if x = JNull then Some [] else jsToString env x) xs))"
| "jsToString env (JObj properties) =
     (if map_of properties ''toString'' = None then Some ''[object Object]'' else None)"

text \<open>
  ToPrimitive, which for an array or an object ends in the same \<^verbatim>\<open>toString\<close>, and the
  conversions of a primitive value to a string and to a Number.
\<close>

datatype primitive = PNull | PBool bool | PNum number | PStr string

fun toPrimitive :: "env \<Rightarrow> json \<Rightarrow> primitive option" where
  "toPrimitive env JNull = Some PNull"
| "toPrimitive env (JBool b) = Some (PBool b)"
| "toPrimitive env (JNum n) = Some (PNum n)"
| "toPrimitive env (JStr s) = Some (PStr s)"
| "toPrimitive env v = map_option PStr (jsToString env v)"

fun isString :: "primitive \<Rightarrow> bool" where
  "isString (PStr s) = True"
| "isString p = False"

fun primitiveToString :: "env \<Rightarrow> primitive \<Rightarrow> string" where
  "primitiveToString env PNull = ''null''"
| "primitiveToString env (PBool b) = (if b then ''true'' else ''false'')"
| "primitiveToString env (PNum n) = numberToString env n"
| "primitiveToString env (PStr s) = s"

fun primitiveToNumber :: "env \<Rightarrow> primitive \<Rightarrow> number" where
  "primitiveToNumber env PNull = js_zero"
| "primitiveToNumber env (PBool b) = (if b then js_one else js_zero)"
| "primitiveToNumber env (PNum n) = n"
| "primitiveToNumber env (PStr s) = stringToNumber env s"

text \<open>
  The operator \<^verbatim>\<open>+\<close>: both operands are made primitive, the left one first; if either is
  then a string the result is the concatenation of their strings, otherwise the sum of
  their Numbers.  \<open>greaterThanZero env v\<close> is \<^verbatim>\<open>v > 0\<close>.
\<close>

definition js_plus :: "env \<Rightarrow> json \<Rightarrow> json \<Rightarrow> json option" where
  "js_plus env a b =
     (case toPrimitive env a of
        None \<Rightarrow> None
      | Some lprim \<Rightarrow>
          (case toPrimitive env b of
             None \<Rightarrow> None
           | Some rprim \<Rightarrow>
               Some (if isString lprim \<or> isString rprim
                     then JStr (primitiveToString env lprim @ primitiveToString env rprim)
                     else JNum (js_add (primitiveToNumber env lprim)
                                  (primitiveToNumber env rprim)))))"

definition greaterThanZero :: "env \<Rightarrow> json \<Rightarrow> bool option" where
  "greaterThanZero env v =
     map_option (\<lambda>p. js_gt (primitiveToNumber env p) js_zero) (toPrimitive env v)"

text \<open>
  \<open>elementAt v i\<close> is the read \<^verbatim>\<open>v[i]\<close> with an index \<open>i\<close> on a value other than \<^verbatim>\<open>null\<close>:
  an element of an array, a character of a string, the member of an object whose name
  is the numeral of \<open>i\<close>.  \<open>ownProperties v\<close> lists the own enumerable properties of a
  value other than \<^verbatim>\<open>null\<close>, which object spread and rest copy: the members of an
  object, the elements of an array and the characters of a string under their indices.
\<close>

fun elementAt :: "json \<Rightarrow> nat \<Rightarrow> jsval" where
  "elementAt (JArr xs) i = nth_opt xs i"
| "elementAt (JStr s) i = (if i < length s then Some (JStr [s ! i]) else None)"
| "elementAt (JObj properties) i = map_of properties (toDecimal i)"
| "elementAt v i = None"

fun ownProperties :: "json \<Rightarrow> (string \<times> json) list" where
  "ownProperties (JObj properties) = properties"
| "ownProperties (JArr xs) = zip (map toDecimal [0..<length xs]) xs"
| "ownProperties (JStr s) = zip (map toDecimal [0..<length s]) (map (\<lambda>c. JStr [c]) s)"
| "ownProperties v = []"

subsection \<open>The cache key\<close>

text \<open>
  \<^verbatim>\<open>new TextEncoder().encode(body)\<close>: the UTF-8 encoding of the text, one to four bytes
  for each code point; a surrogate, which is no scalar value, is written as U+FFFD.
\<close>

definition scalarValue :: "codepoint \<Rightarrow> codepoint" where
  "scalarValue c = (if (55296 \<le> c \<and> c \<le> 57343) \<or> 1114111 < c then 65533 else c)"

definition utf8 :: "codepoint \<Rightarrow> byte list" where
  "utf8 c =
     (if c < 128 then [of_nat c]
      else if c < 2048 then [of_nat (192 + c div 64), of_nat (128 + c mod 64)]
      else if c < 65536
      then [of_nat (224 + c div 4096), of_nat (128 + c div 64 mod 64), of_nat (128 + c mod 64)]
      else [of_nat (240 + c div 262144), of_nat (128 + c div 4096 mod 64),
            of_nat (128 + c div 64 mod 64), of_nat (128 + c mod 64)])"

definition encodeText :: "codepoint list \<Rightarrow> byte list" where
  "encodeText codepoints = concat (map (\<lambda>c. utf8 (scalarValue c)) codepoints)"

definition hexDigits :: string where
  "hexDigits = ''0123456789abcdef''"

definition hexDigit :: "nat \<Rightarrow> char" where
  "hexDigit d = hexDigits ! d"

text \<open>\<^verbatim>\<open>b.toString(16)\<close> for a non-negative integer, and \<^verbatim>\<open>s.padStart(n, c)\<close>.\<close>

fun toString16 :: "nat \<Rightarrow> string" where
  "toString16 n = (if n < 16 then [hexDigit n] else toString16 (n div 16) @ [hexDigit (n mod 16)])"

declare toString16.simps [simp del]

definition padStart :: "nat \<Rightarrow> char \<Rightarrow> string \<Rightarrow> string" where
  "padStart n c s = replicate (n - length s) c @ s"

definition hashHex :: "byte list \<Rightarrow> string" where
  "hashHex hashArray = concat (map (\<lambda>b. padStart 2 (CHR ''0'') (toString16 (unat b))) hashArray)"

definition buildCacheKey :: "env \<Rightarrow> request \<Rightarrow> string" where
  "buildCacheKey env request =
     (let data = encodeText (bodyText request);
          hashArray = digestSHA256 env data
      in ''https://cache.internal/infographic:'' @ hashHex hashArray)"

text \<open>
  The two hexadecimal digits that stand for a byte, high digit first: what the key is
  compared with.
\<close>

definition hexPair :: "byte \<Rightarrow> string" where
  "hexPair b = [hexDigit (unat b div 16), hexDigit (unat b mod 16)]"

subsection \<open>Validation\<close>

text \<open>
  The two checks of the handler.  \<^verbatim>\<open>body.creature\<close> on the body \<^verbatim>\<open>null\<close> throws;
  \<^verbatim>\<open>body.creature?.speciesName\<close> is \<^verbatim>\<open>undefined\<close> when the creature is \<^verbatim>\<open>undefined\<close> or
  \<^verbatim>\<open>null\<close>, and the first check then fails before the creature is read again.  The
  second check tests \<^verbatim>\<open>Array.isArray\<close> and the length and nothing of the entries.  A body
  that passes is \<open>Valid\<close> with what the checks have read: the creature, its species
  name and the entries of its two arrays, which the later reads of the same members
  return again.
\<close>

datatype validation = ReadOfNull | Invalid string | Valid json json "json list" "json list"

text \<open>\<^verbatim>\<open>Array.isArray(v) && v.length === 12\<close>, the condition each array has to meet.\<close>

definition isArrayOf12 :: "jsval \<Rightarrow> bool" where
  "isArrayOf12 v = (case v of Some (JArr xs) \<Rightarrow> length xs = 12 | _ \<Rightarrow> False)"

definition validate :: "json \<Rightarrow> validation" where
  "validate requestBody =
     (if requestBody = JNull then ReadOfNull
      else case readProp requestBody ''creature'' of
        None \<Rightarrow>
          Invalid ''Missing required fields: creature.speciesName, creature.levelsWild, creature.levelsDom''
      | Some JNull \<Rightarrow>
          Invalid ''Missing required fields: creature.speciesName, creature.levelsWild, creature.levelsDom''
      | Some creature \<Rightarrow>
          (case readProp creature ''speciesName'' of
             None \<Rightarrow>
               Invalid ''Missing required fields: creature.speciesName, creature.levelsWild, creature.levelsDom''
           | Some name \<Rightarrow>
               if \<not> truthy (Some name)
                  \<or> \<not> truthy (readProp creature ''levelsWild'')
                  \<or> \<not> truthy (readProp creature ''levelsDom'')
               then Invalid ''Missing required fields: creature.speciesName, creature.levelsWild, creature.levelsDom''
               else (case (readProp creature ''levelsWild'', readProp creature ''levelsDom'') of
                  (Some (JArr wilds), Some (JArr doms)) \<Rightarrow>
                    if length wilds \<noteq> 12 \<or> length doms \<noteq> 12
                    then Invalid ''levelsWild and levelsDom must be arrays of exactly 12 numbers''
                    else Valid creature name wilds doms
                | _ \<Rightarrow> Invalid ''levelsWild and levelsDom must be arrays of exactly 12 numbers'')))"

subsection \<open>Derived fields\<close>

text \<open>
  \<^verbatim>\<open>isBred || tamingEffectiveness > 0\<close> and \<^verbatim>\<open>isBred ? 1.0 : tamingEffectiveness\<close>, after the
  defaults of \<^verbatim>\<open>??\<close>.  The comparison is made only when \<^verbatim>\<open>isBred\<close> is not truthy; \<open>None\<close>
  is the TypeError of a comparison that throws.
\<close>

definition isTamedOf :: "env \<Rightarrow> json \<Rightarrow> json option" where
  "isTamedOf env c =
     (let bred = orDefault (readProp c ''isBred'') (JBool False);
          effectiveness = orDefault (readProp c ''tamingEffectiveness'') (JNum js_zero)
      in if truthy (Some bred) then Some bred
         else map_option JBool (greaterThanZero env effectiveness))"

definition tamingOf :: "json \<Rightarrow> json" where
  "tamingOf c =
     (let bred = orDefault (readProp c ''isBred'') (JBool False);
          effectiveness = orDefault (readProp c ''tamingEffectiveness'') (JNum js_zero)
      in if truthy (Some bred) then JNum js_one else effectiveness)"

text \<open>\<^verbatim>\<open>entries.reduce((a, b) => a + b, a0)\<close>, \<open>None\<close> when an addition throws.\<close>

fun reduceSum :: "env \<Rightarrow> json \<Rightarrow> json list \<Rightarrow> json option" where
  "reduceSum env a [] = Some a"
| "reduceSum env a (b # rest) =
     (case js_plus env a b of None \<Rightarrow> None | Some s \<Rightarrow> reduceSum env s rest)"

text \<open>
  The creature the handler builds from the species name \<open>name\<close>, the creature \<open>c\<close> of the
  request, the entries \<open>wilds\<close> and \<open>doms\<close> of its two arrays and the two results of the
  stat function; \<open>None\<close> when one of the additions throws.
\<close>

definition buildCreature ::
  "env \<Rightarrow> json \<Rightarrow> json \<Rightarrow> json list \<Rightarrow> json list \<Rightarrow> number list \<Rightarrow> number list
    \<Rightarrow> CreatureData option" where
  "buildCreature env name c wilds doms breeding current =
     (let torpidityWild = orDefault (nth_opt wilds 2) (JNum js_zero)
      in case reduceSum env (JNum js_zero) doms of
        None \<Rightarrow> None
      | Some domSum \<Rightarrow>
          (case js_plus env torpidityWild (JNum js_one) of
             None \<Rightarrow> None
           | Some hatched \<Rightarrow>
               (case js_plus env hatched domSum of
                  None \<Rightarrow> None
                | Some levelSum \<Rightarrow>
                    Some \<lparr>speciesName = name,
                          creatureName = orDefault (readProp c ''creatureName'') (JStr []),
                          sex = orDefault (readProp c ''sex'') (JNum js_zero),
                          isNeutered = orDefault (readProp c ''isNeutered'') (JBool False),
                          isMutagenApplied = orDefault (readProp c ''isMutagenApplied'') (JBool False),
                          isBred = orDefault (readProp c ''isBred'') (JBool False),
                          levelsWild = JArr wilds,
                          levelsDom = JArr doms,
                          levelsMutated = orDefault (readProp c ''levelsMutated'') JNull,
                          valuesBreeding = breeding,
                          valuesCurrent = current,
                          colors = orDefault (readProp c ''colors'') (JArr (replicate 6 (JNum js_zero))),
                          tamingEffectiveness =
                            orDefault (readProp c ''tamingEffectiveness'') (JNum js_zero),
                          imprintingBonus = orDefault (readProp c ''imprintingBonus'') (JNum js_zero),
                          mutations = orDefault (readProp c ''mutations'') (JNum js_zero),
                          generation = orDefault (readProp c ''generation'') (JNum js_zero),
                          level = levelSum,
                          levelHatched = hatched\<rparr>)))"

subsection \<open>Sprites and region colours\<close>

text \<open>
  The loop over the six regions, \<open>colorIds\<close> being \<^verbatim>\<open>creature.colors\<close>.  On an inherited
  member of \<^verbatim>\<open>Object.prototype\<close> the read \<^verbatim>\<open>species.enabledColorRegions[i]\<close> throws (the
  result \<open>None\<close>); the \<^verbatim>\<open>try\<close> around the sprite code catches it.
\<close>

definition regionColor :: "(number \<times> Color) list \<Rightarrow> bool list \<Rightarrow> json \<Rightarrow> nat \<Rightarrow> SrgbColor option" where
  "regionColor colorMap enabled colorIds i =
     (let colorId = orDefault (elementAt colorIds i) (JNum js_zero)
      in if nth_opt enabled i = Some True \<and> \<not> strictEqualsNumber colorId js_zero
         then (case getColor colorMap colorId of (r, g, b, a) \<Rightarrow> Some (r, g, b))
         else None)"

definition resolveRegionColors ::
  "(number \<times> Color) list \<Rightarrow> species_val \<Rightarrow> json \<Rightarrow> SrgbColor option list option" where
  "resolveRegionColors colorMap sp colorIds =
     (case sp of
        Meta entry \<Rightarrow> Some (map (regionColor colorMap (enabledColorRegions entry) colorIds) [0..<6])
      | Inherited key \<Rightarrow> None)"

function base64Loop :: "nat \<Rightarrow> byte list \<Rightarrow> string \<Rightarrow> string" where
  "base64Loop i bytes binary =
     (if i < length bytes
      then base64Loop (i + 8192) bytes
             (binary @ map (\<lambda>b. char_of (unat b)) (take 8192 (drop i bytes)))
      else binary)"
  by pat_completeness auto
termination
  by (relation "measure (\<lambda>(i, bytes, binary). length bytes - i)") auto

definition uint8ArrayToBase64 :: "env \<Rightarrow> byte list \<Rightarrow> string" where
  "uint8ArrayToBase64 env bytes = btoa env (base64Loop 0 bytes [])"

definition dataUri :: "env \<Rightarrow> byte list \<Rightarrow> string" where
  "dataUri env imageBytes = ''data:image/png;base64,'' @ uint8ArrayToBase64 env imageBytes"

text \<open>
  The \<^verbatim>\<open>try\<close> block, \<open>name\<close> being the string of the species name that the two template
  strings hold: both reads of the bucket start before either is awaited; a failed read,
  a throwing region loop and a throwing \<^verbatim>\<open>colorizeCreature\<close> all end in the \<^verbatim>\<open>catch\<close>,
  which logs and leaves no image.
\<close>

definition fetchCreatureImage ::
  "env \<Rightarrow> string \<Rightarrow> species_val \<Rightarrow> (string \<times> json) list \<Rightarrow> json
    \<Rightarrow> string option \<times> event list" where
  "fetchCreatureImage env name sp server colorIds =
     (let suffix = (if map_of server ''game'' = Some (JStr ''ASA'') then ''_ASA'' else []);
          baseKey = name @ suffix @ ''.png'';
          maskKey = name @ suffix @ ''_m.png'';
          reads = [SpriteGet baseKey, SpriteGet maskKey]
      in if sprites env baseKey = SpriteError \<or> sprites env maskKey = SpriteError
         then (None, reads @ [ConsoleError])
         else case sprites env baseKey of
           SpriteObject baseBytes \<Rightarrow>
             (case sprites env maskKey of
                SpriteObject maskBytes \<Rightarrow>
                  (case resolveRegionColors
                          (colorMapLoop (arkColorToSrgb env) [] (colorsJson env)) sp colorIds of
                     None \<Rightarrow> (None, reads @ [ConsoleError])
                   | Some regionColors \<Rightarrow>
                       (case colorizeCreature env baseBytes maskBytes regionColors of
                          None \<Rightarrow> (None, reads @ [ColorizeCreature regionColors, ConsoleError])
                        | Some imageBytes \<Rightarrow>
                            (Some (dataUri env imageBytes), reads @ [ColorizeCreature regionColors])))
              | _ \<Rightarrow> (Some (dataUri env baseBytes), reads))
         | _ \<Rightarrow> (None, reads))"

subsection \<open>Rendering and the cache write\<close>

text \<open>\<^verbatim>\<open>{ ...a, ...b }\<close>: the properties of \<open>b\<close> replace or extend those of \<open>a\<close>.\<close>

fun assignOwn :: "(string \<times> json) list \<Rightarrow> string \<Rightarrow> json \<Rightarrow> (string \<times> json) list" where
  "assignOwn [] key v = [(key, v)]"
| "assignOwn ((k, x) # rest) key v =
     (if k = key then (k, v) # rest else (k, x) # assignOwn rest key v)"

definition spread :: "(string \<times> json) list \<Rightarrow> (string \<times> json) list \<Rightarrow> (string \<times> json) list" where
  "spread a b = foldl (\<lambda>obj (k, v). assignOwn obj k v) a b"

text \<open>\<^verbatim>\<open>ensureInitialized\<close> of \<^verbatim>\<open>init.ts\<close>: the rasterizer is set up once.\<close>

definition ensureInitialized :: "world \<Rightarrow> world \<times> event list" where
  "ensureInitialized w =
     (if initialized w then (w, []) else (w\<lparr>initialized := True\<rparr>, [InitRasterizer]))"

text \<open>
  From the options to the cache write.  \<^verbatim>\<open>body.options ?? {}\<close> is taken apart into
  \<^verbatim>\<open>format\<close> and the rest, whatever value it is; the body of a PNG response is the whole
  \<^verbatim>\<open>buffer\<close> of the array the renderer returned.
\<close>

definition renderAndCache ::
  "env \<Rightarrow> world \<Rightarrow> string \<Rightarrow> json \<Rightarrow> CreatureData \<Rightarrow> string \<Rightarrow> species_val \<Rightarrow> event list
    \<Rightarrow> outcome \<times> world \<times> event list" where
  "renderAndCache env w cacheKey requestBody creature name sp events =
     (let options = orDefault (readProp requestBody ''options'') (JObj []);
          configOverrides = filter (\<lambda>(k, v). k \<noteq> ''format'') (ownProperties options);
          config = spread (DEFAULT_CONFIG env) configOverrides;
          server = assignOwn (DEFAULT_SERVER_SETTINGS env) ''game''
                     (orDefault (readProp requestBody ''game'') (JStr ''ASA''));
          (img, spriteEvents) = fetchCreatureImage env name sp server (colors creature);
          format = orDefault (readProp options ''format'') (JStr ''svg'')
      in if format = JStr ''png''
         then (case ensureInitialized w of (w1, initEvents) \<Rightarrow>
           (case renderInfoGraphicPng env creature sp server config img of
              None \<Rightarrow>
                (Threw LibraryError, w1,
                 events @ spriteEvents @ initEvents @ [RenderPng creature img])
            | Some png \<Rightarrow>
                (let r = renderedResponse ''image/png'' (BytesBody (buffer png))
                 in (Returned r, w1\<lparr>cache := (cache w1)(cacheKey \<mapsto> r)\<rparr>,
                     events @ spriteEvents @ initEvents
                       @ [RenderPng creature img, CachePut cacheKey r]))))
         else (case renderInfoGraphicSvg env creature sp server config img of
              None \<Rightarrow>
                (Threw LibraryError, w, events @ spriteEvents @ [RenderSvg creature img])
            | Some svg \<Rightarrow>
                (let r = renderedResponse ''image/svg+xml'' (TextBody svg)
                 in (Returned r, w\<lparr>cache := (cache w)(cacheKey \<mapsto> r)\<rparr>,
                     events @ spriteEvents @ [RenderSvg creature img, CachePut cacheKey r]))))"

subsection \<open>The handler and the router\<close>

text \<open>
  The handler after the species lookup: \<open>speciesNameV\<close> is the member \<^verbatim>\<open>speciesName\<close> of
  the request and \<open>name\<close> its string.
\<close>

definition computeAndRender ::
  "env \<Rightarrow> world \<Rightarrow> string \<Rightarrow> json \<Rightarrow> json \<Rightarrow> json \<Rightarrow> string \<Rightarrow> json list \<Rightarrow> json list
    \<Rightarrow> species_val \<Rightarrow> event list \<Rightarrow> outcome \<times> world \<times> event list" where
  "computeAndRender env w cacheKey requestBody c speciesNameV name wilds doms sp events =
     (case isTamedOf env c of
        None \<Rightarrow> (Threw TypeError, w, events)
      | Some isTamed \<Rightarrow>
          (let call = ComputeStatValues sp (JArr wilds) (JArr doms) isTamed (tamingOf c)
           in case computeStatValues env sp (JArr wilds) (JArr doms)
                     (orDefault (readProp c ''levelsMutated'') JNull) isTamed (tamingOf c)
                     (orDefault (readProp c ''imprintingBonus'') (JNum js_zero)) of
                None \<Rightarrow> (Threw LibraryError, w, events @ [call])
              | Some (breeding, current) \<Rightarrow>
                  (case buildCreature env speciesNameV c wilds doms breeding current of
                     None \<Rightarrow> (Threw TypeError, w, events @ [call])
                   | Some creature \<Rightarrow>
                       renderAndCache env w cacheKey requestBody creature name sp
                         (events @ [call]))))"

text \<open>
  \<^verbatim>\<open>getSpeciesInfo(speciesName)\<close> reads \<^verbatim>\<open>speciesMap[speciesName]\<close>, which converts the
  species name to a string, the property key; the template strings of the error message
  and of the sprite keys convert it in the same way.
\<close>

definition handleInfographic :: "env \<Rightarrow> world \<Rightarrow> request \<Rightarrow> outcome \<times> world \<times> event list" where
  "handleInfographic env w request =
     (let cacheKey = buildCacheKey env request
      in case cache w cacheKey of
        Some cached \<Rightarrow> (Returned cached, w, [CacheMatch cacheKey])
      | None \<Rightarrow>
          (case jsonParse env (bodyText request) of
             None \<Rightarrow> (Returned (errorResponse ''Invalid JSON body''), w, [CacheMatch cacheKey])
           | Some requestBody \<Rightarrow>
               (case validate requestBody of
                  ReadOfNull \<Rightarrow> (Threw TypeError, w, [CacheMatch cacheKey])
                | Invalid message \<Rightarrow> (Returned (errorResponse message), w, [CacheMatch cacheKey])
                | Valid c speciesNameV wilds doms \<Rightarrow>
                    (case jsToString env speciesNameV of
                       None \<Rightarrow>
                         (Threw TypeError, w, [CacheMatch cacheKey, GetSpeciesInfo speciesNameV])
                     | Some name \<Rightarrow>
                         (case getSpeciesInfo (speciesMetaJson env) name of
                            None \<Rightarrow>
                              (Returned (errorResponse (''Unknown species: '' @ name)), w,
                               [CacheMatch cacheKey, GetSpeciesInfo speciesNameV])
                          | Some sp \<Rightarrow>
                              computeAndRender env w cacheKey requestBody c speciesNameV name
                                wilds doms sp
                                [CacheMatch cacheKey, GetSpeciesInfo speciesNameV])))))"

definition handleSpeciesList :: "env \<Rightarrow> response" where
  "handleSpeciesList env = jsonResponse (JArr (map JStr (getSpeciesNames (speciesMetaJson env)))) 200"

definition fetch :: "env \<Rightarrow> world \<Rightarrow> request \<Rightarrow> outcome \<times> world \<times> event list" where
  "fetch env w request =
     (if pathname request = ''/api/infographic'' \<and> httpMethod request = ''POST''
      then handleInfographic env w request
      else if pathname request = ''/api/species'' \<and> httpMethod request = ''GET''
      then (Returned (handleSpeciesList env), w, [])
      else if pathname request = ''/api/health''
      then (Returned (textResponse ''OK'' 200), w, [])
      else (Returned (textResponse ''Not Found'' 404), w, []))"

subsection \<open>Reading a run\<close>

text \<open>The creatures a run hands to a renderer, and the cache writes it makes.\<close>

fun renderedCreature :: "event \<Rightarrow> CreatureData list" where
  "renderedCreature (RenderSvg creature img) = [creature]"
| "renderedCreature (RenderPng creature img) = [creature]"
| "renderedCreature e = []"

definition creaturesRendered :: "event list \<Rightarrow> CreatureData list" where
  "creaturesRendered events = concat (map renderedCreature events)"



section \<open>Example inputs\<close>

text \<open>
  Concrete inputs at which the theorems below are instantiated.  The example species has
  a full stat tuple in slot 0, \<^verbatim>\<open>null\<close> in slot 1, a tuple of only three numbers in slot
  2 and no further slots.
\<close>

definition exampleSpecies :: RawSpecies where
  "exampleSpecies =
     \<lparr>sp_name = ''Rex'',
      sp_statNames = None,
      sp_colors = Some [Some \<lparr>region_name = ''Body'', region_colors = None\<rparr>, None],
      sp_fullStatsRaw =
        Some [Some [Finite False 1033 0, Finite False 1020 0, Finite False 1021 0,
                    Finite False 1022 0, js_zero],
              None,
              Some [js_one, js_one, js_one]],
      TamedBaseHealthMultiplier = None,
      statImprintMult = None\<rparr>"

definition exampleValues :: ValuesJson where
  "exampleValues =
     \<lparr>colorDefinitions = [(''Red'', js_one, js_zero, js_zero, js_one),
                          (''Blue'', js_zero, js_zero, js_one, js_one)],
      dyeDefinitions = [(''Black'', js_zero, js_zero, js_zero, js_one)],
      species = [exampleSpecies]\<rparr>"

text \<open>
  An upstream document with 201 base colours and one dye.
\<close>

definition crowdedValues :: ValuesJson where
  "crowdedValues =
     \<lparr>colorDefinitions = replicate 201 (''Base'', js_zero, js_zero, js_zero, js_one),
      dyeDefinitions = [(''Dye'', js_zero, js_zero, js_zero, js_one)],
      species = []\<rparr>"

text \<open>
  A deployment of the worker: the species table extracted from the example document
  under no multipliers, its colour table, sprites for the one species, and stand-ins for
  the run time and the library.  The stand-in of \<^verbatim>\<open>request.json\<close> knows six request
  texts; the stand-in of \<^verbatim>\<open>computeStatValues\<close> throws when it is given something that is
  not species metadata.  \<open>ascii s\<close> is the text of the ASCII characters \<open>s\<close>.
\<close>

definition ascii :: "string \<Rightarrow> codepoint list" where
  "ascii s = map of_char s"

definition ten :: number where
  "ten = Finite False 1026 1125899906842624"


definition exampleCreature :: json where
  "exampleCreature =
     JObj [(''speciesName'', JStr ''Rex''),
           (''levelsWild'', JArr (map JNum
              [js_zero, js_zero, ten, js_zero, js_zero, js_zero,
               js_zero, js_zero, js_zero, js_zero, js_zero, js_zero])),
           (''levelsDom'', JArr (map JNum (replicate 12 js_zero))),
           (''colors'', JArr (map JNum [js_one, js_zero, js_zero, ten, js_zero, js_zero])),
           (''level'', JNum js_one),
           (''levelHatched'', JNum js_one)]"

definition exampleBody :: json where
  "exampleBody = JObj [(''creature'', exampleCreature)]"

definition constructorCreature :: json where
  "constructorCreature =
     JObj [(''speciesName'', JStr ''constructor''),
           (''levelsWild'', JArr (map JNum (replicate 12 js_zero))),
           (''levelsDom'', JArr (map JNum (replicate 12 js_zero)))]"

definition constructorBody :: json where
  "constructorBody = JObj [(''creature'', constructorCreature)]"

definition unicornBody :: json where
  "unicornBody =
     JObj [(''creature'',
            JObj [(''speciesName'', JStr ''Unicorn''),
                  (''levelsWild'', JArr (map JNum (replicate 12 js_zero))),
                  (''levelsDom'', JArr (map JNum (replicate 12 js_zero)))])]"

definition noLevelsDomBody :: json where
  "noLevelsDomBody =
     JObj [(''creature'',
            JObj [(''speciesName'', JStr ''Rex''),
                  (''levelsWild'', JArr (map JNum (replicate 12 js_zero)))])]"

text \<open>
  A request that passes both checks with the string \<^verbatim>\<open>"5"\<close> as first entry of
  \<^verbatim>\<open>levelsDom\<close>.
\<close>

definition stringLevelCreature :: json where
  "stringLevelCreature =
     JObj [(''speciesName'', JStr ''Rex''),
           (''levelsWild'',
            JArr [JNum js_zero, JNum js_zero, JNum ten, JNum js_zero, JNum js_zero, JNum js_zero,
                  JNum js_zero, JNum js_zero, JNum js_zero, JNum js_zero, JNum js_zero,
                  JNum js_zero]),
           (''levelsDom'',
            JArr [JStr ''5'', JNum js_zero, JNum js_zero, JNum js_zero, JNum js_zero, JNum js_zero,
                  JNum js_zero, JNum js_zero, JNum js_zero, JNum js_zero, JNum js_zero,
                  JNum js_zero])]"

definition stringLevelBody :: json where
  "stringLevelBody = JObj [(''creature'', stringLevelCreature)]"

definition exampleEnv :: env where
  "exampleEnv =
     \<lparr>jsonParse = (\<lambda>codepoints.
          if codepoints = ascii ''null'' then Some JNull
          else if codepoints = ascii ''rex request'' then Some exampleBody
          else if codepoints = ascii ''constructor request'' then Some constructorBody
          else if codepoints = ascii ''unicorn request'' then Some unicornBody
          else if codepoints = ascii ''request without levelsDom'' then Some noLevelsDomBody
          else if codepoints = ascii ''string level request'' then Some stringLevelBody
          else None),
      digestSHA256 = (\<lambda>data. take 32 (data @ replicate 32 0)),
      btoa = (\<lambda>binary. binary),
      stringToNumber = (\<lambda>s. NaN),
      otherNumberToString = (\<lambda>n. ''?''),
      sprites = (\<lambda>key.
          if key = ''Rex_ASA.png'' then SpriteObject [1, 2, 3]
          else if key = ''Rex_ASA_m.png'' then SpriteObject [4, 5]
          else SpriteNull),
      speciesMetaJson = [(''Rex'', speciesMetaEntry exampleSpecies [])],
      colorsJson = extractColors exampleValues,
      arkColorToSrgb = (\<lambda>entry. (ten, ten, ten)),
      DEFAULT_CONFIG = [],
      DEFAULT_SERVER_SETTINGS = [],
      computeStatValues = (\<lambda>sp wilds doms mutated isTamed taming imprinting.
          case sp of Meta entry \<Rightarrow> Some ([], []) | Inherited key \<Rightarrow> None),
      colorizeCreature = (\<lambda>baseBytes maskBytes regionColors. Some baseBytes),
      renderInfoGraphicSvg = (\<lambda>creature sp server config img. Some ''<svg/>''),
      renderInfoGraphicPng = (\<lambda>creature sp server config img.
          Some \<lparr>buffer = [], byteOffset = 0, byteLength = 0\<rparr>)\<rparr>"

definition exampleWorld :: world where
  "exampleWorld = \<lparr>cache = Map.empty, initialized = False\<rparr>"

definition exampleRequest :: request where
  "exampleRequest =
     \<lparr>pathname = ''/api/infographic'', httpMethod = ''POST'', bodyText = ascii ''rex request''\<rparr>"

definition nullRequest :: request where
  "nullRequest = \<lparr>pathname = ''/api/infographic'', httpMethod = ''POST'', bodyText = ascii ''null''\<rparr>"

definition constructorRequest :: request where
  "constructorRequest =
     \<lparr>pathname = ''/api/infographic'', httpMethod = ''POST'',
      bodyText = ascii ''constructor request''\<rparr>"

definition unicornRequest :: request where
  "unicornRequest =
     \<lparr>pathname = ''/api/infographic'', httpMethod = ''POST'', bodyText = ascii ''unicorn request''\<rparr>"

definition noLevelsDomRequest :: request where
  "noLevelsDomRequest =
     \<lparr>pathname = ''/api/infographic'', httpMethod = ''POST'',
      bodyText = ascii ''request without levelsDom''\<rparr>"


section \<open>Multiplication by one is exact\<close>

lemma shiftRight_exact: "shiftRightTiesToEven (m * 2 ^ k) k = m"
  by (simp add: shiftRightTiesToEven_def)

lemma floorlog_normal:
  assumes "f < 2 ^ 52"
  shows "floorlog 2 ((2 ^ 52 + f) * 2 ^ k) = 53 + k"
proof -
  have "floorlog 2 (2 ^ 52 + f) \<le> 53"
    using assms by (intro floorlog_leI) simp_all
  moreover have "53 \<le> floorlog 2 (2 ^ 52 + f)"
    by (intro floorlog_geI) simp_all
  moreover have "floorlog 2 ((2 ^ 52 + f) * 2 ^ k) = floorlog 2 (2 ^ 52 + f) + k"
    by (intro floorlog_power) simp_all
  ultimately show ?thesis by linarith
qed

lemma floorlog_subnormal:
  assumes "0 < f" "f < 2 ^ 52"
  shows "floorlog 2 (f * 2 ^ k) \<le> 52 + k"
proof -
  have "floorlog 2 f \<le> 52"
    using assms by (intro floorlog_leI) simp_all
  moreover have "floorlog 2 (f * 2 ^ k) = floorlog 2 f + k"
    using assms by (intro floorlog_power) simp_all
  ultimately show ?thesis by linarith
qed

text \<open>
  Rounding a significand \<open>r\<close> below \<open>2^53\<close> that was scaled by \<open>2^k\<close>: the scaling is
  undone exactly.
\<close>

lemma round_scaled:
  assumes "r \<noteq> 0"
    and "max (q - int k + int (floorlog 2 (r * 2 ^ k)) - 53) (- 1074) = q"
    and "r < 2 ^ 53"
  shows "roundTiesToEven s (r * 2 ^ k) (q - int k) =
     (if r < 2 ^ 52 then Finite s 0 r
      else if 2047 \<le> q + 1075 then Infinity s
      else Finite s (nat (q + 1075)) (r - 2 ^ 52))"
proof (cases "k = 0")
  case True
  with assms show ?thesis
    by (simp add: roundTiesToEven_def Let_def)
next
  case False
  have "nat (q - (q - int k)) = k" by simp
  with False assms show ?thesis
    by (simp add: roundTiesToEven_def Let_def shiftRight_exact)
qed

lemma round_exact:
  assumes "e < 2047" "f < 2 ^ 52"
  shows "roundTiesToEven s (significand e f * 2 ^ k) (exponent e - int k) = Finite s e f"
proof (cases "e = 0")
  case False
  have "roundTiesToEven s ((2 ^ 52 + f) * 2 ^ k) (int e - 1075 - int k) =
     (if 2 ^ 52 + f < 2 ^ 52 then Finite s 0 (2 ^ 52 + f)
      else if 2047 \<le> (int e - 1075) + 1075 then Infinity s
      else Finite s (nat ((int e - 1075) + 1075)) ((2 ^ 52 + f) - 2 ^ 52))"
  proof (rule round_scaled)
    show "2 ^ 52 + f \<noteq> 0" by simp
    show "max (int e - 1075 - int k + int (floorlog 2 ((2 ^ 52 + f) * 2 ^ k)) - 53) (- 1074)
            = int e - 1075"
      using False floorlog_normal [OF assms(2), of k] by simp
    show "2 ^ 52 + f < 2 ^ 53" using assms(2) by simp
  qed
  then show ?thesis
    using False assms by (simp add: significand_def exponent_def)
next
  case True
  show ?thesis
  proof (cases "f = 0")
    case True
    with \<open>e = 0\<close> show ?thesis
      by (simp add: roundTiesToEven_def significand_def)
  next
    case False
    then have f0: "0 < f" by simp
    have "roundTiesToEven s (f * 2 ^ k) (- 1074 - int k) =
       (if f < 2 ^ 52 then Finite s 0 f
        else if 2047 \<le> (- 1074 :: int) + 1075 then Infinity s
        else Finite s (nat (- 1074 + 1075)) (f - 2 ^ 52))"
    proof (rule round_scaled)
      show "f \<noteq> 0" using f0 by simp
      show "max (- 1074 - int k + int (floorlog 2 (f * 2 ^ k)) - 53) (- 1074) = - 1074"
        using floorlog_subnormal [OF f0 assms(2), of k] by simp
      show "f < 2 ^ 53" using assms(2) by simp
    qed
    then show ?thesis
      using \<open>e = 0\<close> assms by (simp add: significand_def exponent_def)
  qed
qed

lemma js_mul_one: "is_number x \<Longrightarrow> js_mul x js_one = x"
proof (cases x)
  case (Finite s e f)
  assume "is_number x"
  with Finite have "e < 2047" "f < 2 ^ 52" by simp_all
  from round_exact [OF this, of s 52] Finite show ?thesis
    by (simp add: js_one_def significand_def exponent_def)
qed (simp_all add: js_one_def)




text \<open>
  The operations stay inside the format: whatever the operands, a product and a sum have
  an exponent field below 2047 and a fraction field below \<open>2^52\<close>.
\<close>

lemma shiftRight_bound:
  assumes "m < 2 ^ (53 + k)"
  shows "shiftRightTiesToEven m k \<le> 2 ^ 53"
proof -
  have "m < 2 ^ 53 * 2 ^ k" using assms by (simp add: power_add)
  then have "m div 2 ^ k < 2 ^ 53"
    by (simp add: less_mult_imp_div_less)
  then show ?thesis
    by (simp add: shiftRightTiesToEven_def Let_def)
qed

lemma finish_number:
  assumes "r \<le> 2 ^ 53"
  shows "is_number
     (let q' = (if r = 2 ^ 53 then q + 1 else q);
          r' = (if r = 2 ^ 53 then 2 ^ 52 else r)
      in if r' < 2 ^ 52 then Finite s 0 r'
         else if 2047 \<le> q' + 1075 then Infinity s
         else Finite s (nat (q' + 1075)) (r' - 2 ^ 52))"
  using assms by (auto simp: Let_def)

lemma roundTiesToEven_number: "is_number (roundTiesToEven s m e)"
proof (cases "m = 0")
  case True
  then show ?thesis by (simp add: roundTiesToEven_def)
next
  case False
  define b where "b = floorlog 2 m"
  define q where "q = max (e + int b - 53) (- 1074)"
  define r where "r = (if q \<le> e then m * 2 ^ nat (e - q) else shiftRightTiesToEven m (nat (q - e)))"
  have m: "m < 2 ^ b"
    using False floorlog_bounds [of m 2] by (simp add: b_def)
  have bound: "r \<le> 2 ^ 53"
  proof (cases "q \<le> e")
    case True
    then have "int b + (e - q) \<le> 53" by (simp add: q_def)
    then have "b + nat (e - q) \<le> 53" using True by linarith
    have "m * 2 ^ nat (e - q) < 2 ^ b * 2 ^ nat (e - q)"
      using m by simp
    also have "\<dots> = 2 ^ (b + nat (e - q))" by (simp add: power_add)
    also have "\<dots> \<le> (2::nat) ^ 53"
      using \<open>b + nat (e - q) \<le> 53\<close> by (rule power_increasing) simp
    finally show ?thesis using True by (simp add: r_def)
  next
    case False
    then have "int b \<le> 53 + (q - e)" by (simp add: q_def)
    then have "b \<le> 53 + nat (q - e)" using False by linarith
    then have "(2::nat) ^ b \<le> 2 ^ (53 + nat (q - e))"
      by (rule power_increasing) simp
    with m have "m < 2 ^ (53 + nat (q - e))" by (rule less_le_trans)
    from shiftRight_bound [OF this] False show ?thesis by (simp add: r_def)
  qed
  have "roundTiesToEven s m e =
     (let q' = (if r = 2 ^ 53 then q + 1 else q);
          r' = (if r = 2 ^ 53 then 2 ^ 52 else r)
      in if r' < 2 ^ 52 then Finite s 0 r'
         else if 2047 \<le> q' + 1075 then Infinity s
         else Finite s (nat (q' + 1075)) (r' - 2 ^ 52))"
    by (simp only: roundTiesToEven_def Let_def r_def q_def b_def \<open>m \<noteq> 0\<close> if_False)
  then show ?thesis
    by (simp only: finish_number [OF bound])
qed

lemma js_mul_number: "is_number (js_mul x y)"
  by (cases x; cases y) (simp_all add: roundTiesToEven_number)

lemma js_add_number: "is_number (js_add x y)"
  by (cases x; cases y) (simp_all add: roundTiesToEven_number Let_def)

lemma js_gt_zero:
  "js_gt x js_zero =
     (case x of NaN \<Rightarrow> False | Infinity s \<Rightarrow> \<not> s | Finite s e f \<Rightarrow> \<not> s \<and> (e \<noteq> 0 \<or> f \<noteq> 0))"
  by (cases x) (auto simp: js_gt_def js_zero_def)


section \<open>The stat multiplier\<close>

text \<open>
  C1.  For every raw stat 5-tuple and every multiplier 4-tuple, \<open>applyStatMultiplier\<close>
  returns the base value (index 0) unchanged, index 1 times the WildLevel factor
  (position 3), index 2 times the DomLevel factor (position 2), and indices 3 and 4
  times the TamingAdd and TamingMult factors (positions 0 and 1) when the original value
  is strictly positive; otherwise indices 3 and 4 are the input, bit for bit (zero, a
  negative value, minus zero, NaN).  The hypothesis says that the two values are Numbers:
  their bit fields are in range.
\<close>

theorem applyStatMultiplier_spec:
  assumes "is_number addTamed" and "is_number multAff"
  shows "applyStatMultiplier (base, incWild, incDom, addTamed, multAff)
           (tamingAdd, tamingMult, domLevel, wildLevel) =
     (base,
      js_mul incWild wildLevel,
      js_mul incDom domLevel,
      (if js_gt addTamed js_zero then js_mul addTamed tamingAdd else addTamed),
      (if js_gt multAff js_zero then js_mul multAff tamingMult else multAff))"
  using assms by (simp add: js_mul_one)

text \<open>
  At \<open>addTamed = -0.5\<close> and \<open>multAff = 0\<close> both guarded slots keep their input.
\<close>

theorem applyStatMultiplier_spec_witness:
  "applyStatMultiplier
     (Finite False 1029 0, Finite False 1020 0, Finite False 1021 0, Finite True 1022 0, js_zero)
     (Finite False 1024 0, Finite False 1025 0, Finite False 1026 0, Finite False 1027 0) =
   (Finite False 1029 0,
    js_mul (Finite False 1020 0) (Finite False 1027 0),
    js_mul (Finite False 1021 0) (Finite False 1026 0),
    Finite True 1022 0,
    js_zero)"
proof -
  have wf: "is_number (Finite True 1022 0)" "is_number js_zero"
    by (simp_all add: js_zero_def)
  have neg: "\<not> js_gt (Finite True 1022 0) js_zero" "\<not> js_gt js_zero js_zero"
    by (simp_all add: js_gt_def js_zero_def)
  show ?thesis
    by (simp only: applyStatMultiplier_spec [OF wf] neg if_False)
qed

text \<open>
  C10.  The identity multiplier \<open>[1, 1, 1, 1]\<close> is a right identity of
  \<open>applyStatMultiplier\<close>: every index of the result is the input.
\<close>

theorem applyStatMultiplier_identity:
  assumes "is_number incWild" and "is_number incDom"
    and "is_number addTamed" and "is_number multAff"
  shows "applyStatMultiplier (base, incWild, incDom, addTamed, multAff) DEFAULT_STAT_MULT =
     (base, incWild, incDom, addTamed, multAff)"
  using assms by (simp add: DEFAULT_STAT_MULT_def js_mul_one)

theorem applyStatMultiplier_identity_witness:
  "applyStatMultiplier
     (Finite False 1033 0, Finite False 1020 7, Finite True 0 1, Infinity True, NaN)
     DEFAULT_STAT_MULT =
   (Finite False 1033 0, Finite False 1020 7, Finite True 0 1, Infinity True, NaN)"
  by (rule applyStatMultiplier_identity) simp_all

lemma loadStatMultipliers_fallback:
  assumes "smJson = None \<or> (\<exists>d. smJson = Some d \<and> (d preset = None \<or> d preset = Some None))"
  shows "multiplierAt (loadStatMultipliers smJson preset) i = DEFAULT_STAT_MULT"
  using assms
  by (auto simp: loadStatMultipliers_def multiplierAt_def nth_opt_def split: option.splits)

text \<open>
  X4.  The fallback of the main program: with the multiplier document unreadable, or the
  preset or its multipliers missing, every slot gets the identity multiplier, and a
  slot with stat data is extracted as its first five numbers, unchanged.
\<close>

theorem extractStat_fallback:
  assumes "smJson = None \<or> (\<exists>d. smJson = Some d \<and> (d preset = None \<or> d preset = Some None))"
    and "rawStatAt sp i = Some raw" and "5 \<le> length raw" and "list_all is_number raw"
  shows "extractStat sp (loadStatMultipliers smJson preset) i =
           Some (raw ! 0, raw ! 1, raw ! 2, raw ! 3, raw ! 4)"
proof -
  have "is_number (raw ! k)" if "k < 5" for k
    using that assms(3,4) by (simp add: list_all_length)
  then have "is_number (raw ! 1)" "is_number (raw ! 2)" "is_number (raw ! 3)" "is_number (raw ! 4)"
    by simp_all
  then show ?thesis
    using assms(2,3)
    by (simp add: extractStat_def loadStatMultipliers_fallback [OF assms(1)]
        DEFAULT_STAT_MULT_def js_mul_one)
qed

section \<open>The species table\<close>

lemma speciesMetaEntry_usedStats:
  assumes "i < 12"
  shows "usedStats (speciesMetaEntry sp ms) ! i = (fullStatsRaw (speciesMetaEntry sp ms) ! i \<noteq> None)"
proof -
  have len: "length (extractFullStatsRaw sp ms) = 12"
    by (simp add: extractFullStatsRaw_def)
  have "usedStats (speciesMetaEntry sp ms) ! i =
      (case nth_opt (extractFullStatsRaw sp ms) i of Some (Some t) \<Rightarrow> True | _ \<Rightarrow> False)"
    using assms by (simp add: speciesMetaEntry_def Let_def extractUsedStats_def)
  also have "\<dots> = (extractFullStatsRaw sp ms ! i \<noteq> None)"
    using assms len by (simp add: nth_opt_def split: option.split)
  finally show ?thesis
    by (simp add: speciesMetaEntry_def Let_def)
qed

lemma speciesMetaEntry_lengths:
  "length (usedStats (speciesMetaEntry sp ms)) = 12"
  "length (fullStatsRaw (speciesMetaEntry sp ms)) = 12"
  "length (enabledColorRegions (speciesMetaEntry sp ms)) = 6"
  "length (colorRegionNames (speciesMetaEntry sp ms)) = 6"
  "length (statImprintMultipliers (speciesMetaEntry sp ms)) = 12"
  by (simp_all add: speciesMetaEntry_def Let_def extractUsedStats_def extractFullStatsRaw_def
      extractEnabledColorRegions_def extractColorRegionNames_def
      extractStatImprintMultipliers_def split: option.split)

text \<open>
  Every entry of the table is either an entry the loop started with or the entry built
  from one of the species.
\<close>

lemma extractSpeciesLoop_entries:
  assumes "extractSpeciesLoop meta sps ms name = Some entry"
  shows "meta name = Some entry \<or> (\<exists>sp \<in> set sps. entry = speciesMetaEntry sp ms)"
  using assms
proof (induction sps arbitrary: meta)
  case Nil
  then show ?case by simp
next
  case (Cons sp rest)
  from Cons.prems have
    "extractSpeciesLoop (assignProperty meta (sp_name sp) (speciesMetaEntry sp ms)) rest ms name
       = Some entry"
    by simp
  from Cons.IH [OF this] show ?case
    by (auto simp: assignProperty_def split: if_splits)
qed

text \<open>
  C2.  For every entry that \<open>extractSpeciesMeta\<close> produces, from any upstream document
  and any multiplier array, and every stat slot \<open>i\<close> from 0 to 11: \<open>usedStats[i]\<close> is true
  if and only if \<open>fullStatsRaw[i]\<close> is not null.  Both arrays have twelve slots.
\<close>

theorem extractSpeciesMeta_usedStats:
  assumes "extractSpeciesMeta values statMultipliers name = Some entry" and "i < 12"
  shows "length (usedStats entry) = 12 \<and> length (fullStatsRaw entry) = 12 \<and>
         usedStats entry ! i = (fullStatsRaw entry ! i \<noteq> None)"
proof -
  from assms(1) obtain sp where "entry = speciesMetaEntry sp statMultipliers"
    using extractSpeciesLoop_entries [of Map.empty "species values" statMultipliers name entry]
    by (auto simp: extractSpeciesMeta_def)
  then show ?thesis
    using assms(2) by (simp add: speciesMetaEntry_usedStats speciesMetaEntry_lengths)
qed

lemma exampleSpecies_entry:
  "extractSpeciesMeta exampleValues [] ''Rex'' = Some (speciesMetaEntry exampleSpecies [])"
  by (simp add: extractSpeciesMeta_def exampleValues_def assignProperty_def exampleSpecies_def)

lemma exampleSpecies_usedStats:
  "usedStats (speciesMetaEntry exampleSpecies []) =
     [True, False, False, False, False, False, False, False, False, False, False, False]"
  by (simp add: speciesMetaEntry_def Let_def extractUsedStats_def extractFullStatsRaw_def
      extractStat_def rawStatAt_def nth_opt_def exampleSpecies_def upt_rec)

theorem extractSpeciesMeta_usedStats_witness:
  "extractSpeciesMeta exampleValues [] ''Rex'' = Some (speciesMetaEntry exampleSpecies [])
   \<and> length (usedStats (speciesMetaEntry exampleSpecies [])) = 12
   \<and> length (fullStatsRaw (speciesMetaEntry exampleSpecies [])) = 12
   \<and> usedStats (speciesMetaEntry exampleSpecies []) ! 2 = False
   \<and> fullStatsRaw (speciesMetaEntry exampleSpecies []) ! 2 = None"
proof -
  have i: "(2::nat) < 12" by simp
  have u: "usedStats (speciesMetaEntry exampleSpecies []) ! 2 = False"
    by (simp add: exampleSpecies_usedStats)
  from extractSpeciesMeta_usedStats [OF exampleSpecies_entry i] u exampleSpecies_entry
  show ?thesis by blast
qed

section \<open>The colour table\<close>

lemma map_nth_upt: "map (\<lambda>i. f (xs ! i)) [0..<length xs] = map f xs"
  by (rule nth_equalityI) simp_all

lemma extractColors_ids:
  "map color_id (extractColors v) =
     [1..<Suc (length (colorDefinitions v))] @ [201..<201 + length (dyeDefinitions v)]"
proof -
  have a: "map (\<lambda>i. Suc i) [0..<n] = [1..<Suc n]" for n
    using map_Suc_upt [of 0 n] by simp
  have b: "map (\<lambda>i. 201 + i) [0..<m] = [201..<201 + m]" for m
    using map_add_upt [of 201 m] by (simp add: add.commute)
  show ?thesis
    by (simp add: extractColors_def o_def case_prod_beta a b)
qed

lemma extractColors_names:
  "map color_name (extractColors v) = map fst (colorDefinitions v) @ map fst (dyeDefinitions v)"
  by (simp add: extractColors_def o_def case_prod_beta map_nth_upt)

lemma ids_distinct_iff:
  "distinct ([1..<Suc n] @ [201..<201 + m]) \<longleftrightarrow> n \<le> 200 \<or> m = 0"
proof
  assume d: "distinct ([1..<Suc n] @ [201..<201 + m])"
  show "n \<le> 200 \<or> m = 0"
  proof (rule ccontr)
    assume "\<not> (n \<le> 200 \<or> m = 0)"
    then have "201 < Suc n" "0 < m" by simp_all
    then have "(201::nat) \<in> set [1..<Suc n]" "(201::nat) \<in> set [201..<201 + m]"
      by (simp_all only: set_upt atLeastLessThan_iff) simp_all
    moreover from d have "set [1..<Suc n] \<inter> set [201..<201 + m] = {}"
      by (simp only: distinct_append)
    ultimately show False by blast
  qed
next
  assume "n \<le> 200 \<or> m = 0"
  then have "set [1..<Suc n] \<inter> set [201..<201 + m] = {}"
    by (simp only: set_upt) auto
  then show "distinct ([1..<Suc n] @ [201..<201 + m])"
    by (simp only: distinct_append distinct_upt simp_thms)
qed

lemma extractColors_distinct_iff:
  "distinct (map color_id (extractColors v))
     \<longleftrightarrow> length (colorDefinitions v) \<le> 200 \<or> dyeDefinitions v = []"
  by (simp only: extractColors_ids ids_distinct_iff length_0_conv)

lemma extractColors_nth_base:
  assumes "i < length (colorDefinitions v)"
  shows "color_id (extractColors v ! i) = i + 1"
  using assms by (simp add: extractColors_def nth_append case_prod_beta)

lemma extractColors_nth_dye:
  assumes "i < length (dyeDefinitions v)"
  shows "color_id (extractColors v ! (length (colorDefinitions v) + i)) = 201 + i"
  using assms by (simp add: extractColors_def nth_append case_prod_beta)

text \<open>
  C3, as the code has it.  With \<open>N\<close> base colours and \<open>M\<close> dyes, the ids of the table
  are \<open>1..N\<close> followed by \<open>201..200+M\<close>, in input order (the names of the table are the
  names of the input, base colours first), so they depend on nothing but \<open>N\<close> and \<open>M\<close>
  and a second run on the same input gives the same ids.  No two entries share an id
  exactly when \<open>N \<le> 200\<close> or there is no dye: the dye range starts at the fixed id 201,
  which is also the id of the 201st base colour.
\<close>

theorem extractColors_ids_amended:
  "map color_id (extractColors v) =
     [1..<Suc (length (colorDefinitions v))] @ [201..<201 + length (dyeDefinitions v)]
   \<and> map color_name (extractColors v) = map fst (colorDefinitions v) @ map fst (dyeDefinitions v)
   \<and> (distinct (map color_id (extractColors v))
        \<longleftrightarrow> length (colorDefinitions v) \<le> 200 \<or> dyeDefinitions v = [])"
  using extractColors_ids extractColors_names extractColors_distinct_iff by blast

theorem extractColors_ids_amended_witness:
  "map color_id (extractColors exampleValues) = [1, 2, 201]
   \<and> map color_name (extractColors exampleValues) = [''Red'', ''Blue'', ''Black'']
   \<and> distinct (map color_id (extractColors exampleValues))"
proof -
  have "length (colorDefinitions exampleValues) = 2" "length (dyeDefinitions exampleValues) = 1"
    by (simp_all add: exampleValues_def)
  moreover have "map fst (colorDefinitions exampleValues) = [''Red'', ''Blue'']"
    "map fst (dyeDefinitions exampleValues) = [''Black'']"
    by (simp_all add: exampleValues_def)
  moreover have "[1..<Suc 2] @ [201..<201 + 1] = [1, 2, 201 :: nat]"
    by (simp add: upt_rec)
  ultimately show ?thesis
    using extractColors_ids_amended [of exampleValues] by simp
qed

text \<open>
  The claim as the specification states it, injective for every input, fails with 201
  base colours and one dye: the entries at positions 200 and 201 of the table, the last
  base colour and the dye, both have the id 201.
\<close>

theorem extractColors_not_injective:
  "color_id (extractColors crowdedValues ! 200) = 201
   \<and> color_id (extractColors crowdedValues ! 201) = 201
   \<and> \<not> distinct (map color_id (extractColors crowdedValues))"
proof -
  have n: "length (colorDefinitions crowdedValues) = 201"
    and m: "length (dyeDefinitions crowdedValues) = 1"
    by (simp_all add: crowdedValues_def)
  have "color_id (extractColors crowdedValues ! 200) = 200 + 1"
    by (rule extractColors_nth_base) (simp add: n)
  moreover have
    "color_id (extractColors crowdedValues ! (length (colorDefinitions crowdedValues) + 0)) = 201 + 0"
    by (rule extractColors_nth_dye) (simp add: m)
  moreover have "\<not> distinct (map color_id (extractColors crowdedValues))"
    by (simp add: extractColors_distinct_iff crowdedValues_def)
  ultimately show ?thesis by (simp add: n)
qed
section \<open>The cache key\<close>

lemma ascii_eq_iff [simp]: "ascii s = ascii t \<longleftrightarrow> s = t"
proof
  assume "ascii s = ascii t"
  then have "map (of_char :: char \<Rightarrow> nat) s = map of_char t"
    by (simp add: ascii_def)
  moreover have "inj (of_char :: char \<Rightarrow> nat)"
    by (rule injI) simp
  ultimately show "s = t"
    by (simp add: inj_map_eq_map)
qed simp

lemma encodeText_examples:
  "encodeText (ascii ''null'') = [110, 117, 108, 108]"
  "encodeText [233] = [195, 169]"
  "encodeText [8364] = [226, 130, 172]"
  "encodeText [128512] = [240, 159, 152, 128]"
  "encodeText [55296] = [239, 191, 189]"
  by (simp_all add: encodeText_def utf8_def scalarValue_def ascii_def)

lemma toString16_digit: "n < 16 \<Longrightarrow> toString16 n = [hexDigit n]"
  by (simp add: toString16.simps [of n])

lemma toString16_two_digits:
  assumes "16 \<le> n" and "n < 256"
  shows "toString16 n = [hexDigit (n div 16), hexDigit (n mod 16)]"
proof -
  from assms have "n div 16 < 16" by simp
  then have "toString16 (n div 16) = [hexDigit (n div 16)]"
    by (rule toString16_digit)
  with assms(1) show ?thesis
    by (simp add: toString16.simps [of n])
qed

lemma hexDigit_zero: "hexDigit 0 = CHR ''0''"
  by (simp add: hexDigit_def hexDigits_def)

lemma padStart_toString16:
  assumes "n < 256"
  shows "padStart 2 (CHR ''0'') (toString16 n) = [hexDigit (n div 16), hexDigit (n mod 16)]"
proof (cases "n < 16")
  case True
  then show ?thesis
    by (simp add: toString16_digit padStart_def hexDigit_zero)
next
  case False
  with assms show ?thesis
    by (simp add: toString16_two_digits padStart_def)
qed

lemma unat_byte: "unat (b :: byte) < 256"
proof -
  have "unat b < 2 ^ LENGTH(8)" by (rule unsigned_less)
  then show ?thesis by simp
qed

lemma hexPair_eq: "padStart 2 (CHR ''0'') (toString16 (unat (b :: byte))) = hexPair b"
  by (simp add: padStart_toString16 unat_byte hexPair_def)

lemma hashHex_hexPair: "hashHex hashArray = concat (map hexPair hashArray)"
  by (simp add: hashHex_def hexPair_eq)

lemma hexPairs_length: "length (concat (map hexPair bytes)) = 2 * length bytes"
  by (induction bytes) (simp_all add: hexPair_def)

lemma hexDigit_range: "d < 16 \<Longrightarrow> hexDigit d \<in> set hexDigits"
  unfolding hexDigit_def by (rule nth_mem) (simp add: hexDigits_def)

lemma hexPairs_chars: "set (concat (map hexPair bytes)) \<subseteq> set hexDigits"
proof (induction bytes)
  case Nil
  show ?case by simp
next
  case (Cons b bytes)
  have "unat b div 16 < 16" using unat_byte [of b] by simp
  then have "hexDigit (unat b div 16) \<in> set hexDigits"
    by (rule hexDigit_range)
  moreover have "hexDigit (unat b mod 16) \<in> set hexDigits"
    by (rule hexDigit_range) simp
  ultimately have "set (hexPair b) \<subseteq> set hexDigits"
    by (simp add: hexPair_def)
  moreover have "concat (map hexPair (b # bytes)) = hexPair b @ concat (map hexPair bytes)"
    by simp
  ultimately show ?case
    using Cons.IH by (simp only: set_append Un_subset_iff simp_thms)
qed

lemma hexDigit_inj:
  assumes "a < 16" and "b < 16" and "hexDigit a = hexDigit b"
  shows "a = b"
proof -
  have "distinct hexDigits" and "length hexDigits = 16"
    by (simp_all add: hexDigits_def)
  with assms show ?thesis
    by (simp add: hexDigit_def nth_eq_iff_index_eq)
qed

lemma hexPair_inj:
  assumes "hexPair a = hexPair b"
  shows "a = b"
proof -
  have "unat a div 16 < 16" and "unat b div 16 < 16"
    using unat_byte [of a] unat_byte [of b] by simp_all
  moreover have "unat a mod 16 < 16" and "unat b mod 16 < 16"
    by simp_all
  moreover from assms have "hexDigit (unat a div 16) = hexDigit (unat b div 16)"
    and "hexDigit (unat a mod 16) = hexDigit (unat b mod 16)"
    by (simp_all add: hexPair_def)
  ultimately have "unat a div 16 = unat b div 16" and "unat a mod 16 = unat b mod 16"
    by (blast intro: hexDigit_inj)+
  then have "unat a = unat b"
    by (metis div_mult_mod_eq)
  then show ?thesis
    by (simp add: word_unat_eq_iff)
qed

lemma hexPairs_inj:
  "concat (map hexPair xs) = concat (map hexPair ys) \<Longrightarrow> xs = ys"
proof (induction xs arbitrary: ys)
  case Nil
  then show ?case by (cases ys) (simp_all add: hexPair_def)
next
  case (Cons x xs)
  from Cons.prems obtain y rest where ys: "ys = y # rest"
    by (cases ys) (simp_all add: hexPair_def)
  with Cons.prems have
    "hexPair x @ concat (map hexPair xs) = hexPair y @ concat (map hexPair rest)"
    by simp
  moreover have "length (hexPair x) = length (hexPair y)"
    by (simp add: hexPair_def)
  ultimately have p: "hexPair x = hexPair y"
    and c: "concat (map hexPair xs) = concat (map hexPair rest)"
    by simp_all
  have "x = y" by (rule hexPair_inj [OF p])
  moreover have "xs = rest" by (rule Cons.IH [OF c])
  ultimately show ?case using ys by simp
qed

lemma buildCacheKey_hexPairs:
  "buildCacheKey env request =
     ''https://cache.internal/infographic:''
       @ concat (map hexPair (digestSHA256 env (encodeText (bodyText request))))"
  by (simp add: buildCacheKey_def Let_def hashHex_hexPair)

text \<open>
  C7.  Two requests whose body texts are identical get identical cache keys, whatever
  else differs between them.  A key is the fixed prefix followed by the SHA-256 digest
  of the UTF-8 bytes of the body text, written as two hexadecimal digits for each byte,
  high digit first: 64 digits for the 32 bytes of the digest.  The digits determine the
  digest, so two requests share a key exactly when the digests of their bodies are
  equal.
\<close>

theorem buildCacheKey_deterministic:
  assumes "bodyText request1 = bodyText request2"
    and "\<forall>data. length (digestSHA256 env data) = 32"
  shows "buildCacheKey env request1 = buildCacheKey env request2
    \<and> buildCacheKey env request1 =
        ''https://cache.internal/infographic:''
          @ concat (map hexPair (digestSHA256 env (encodeText (bodyText request1))))
    \<and> length (concat (map hexPair (digestSHA256 env (encodeText (bodyText request1))))) = 64
    \<and> set (concat (map hexPair (digestSHA256 env (encodeText (bodyText request1)))))
        \<subseteq> set hexDigits
    \<and> (\<forall>request3.
          buildCacheKey env request3 = buildCacheKey env request1
          \<longleftrightarrow> digestSHA256 env (encodeText (bodyText request3))
              = digestSHA256 env (encodeText (bodyText request1)))"
proof -
  let ?digest = "\<lambda>request. digestSHA256 env (encodeText (bodyText request))"
  have "buildCacheKey env request1 = buildCacheKey env request2"
    using assms(1) by (simp add: buildCacheKey_def)
  moreover have "length (concat (map hexPair (?digest request1))) = 64"
    using assms(2) by (simp add: hexPairs_length)
  moreover have "buildCacheKey env request3 = buildCacheKey env request1
      \<longleftrightarrow> ?digest request3 = ?digest request1" for request3
    by (auto simp: buildCacheKey_hexPairs dest: hexPairs_inj)
  ultimately show ?thesis
    using buildCacheKey_hexPairs [of env request1] hexPairs_chars [of "?digest request1"]
    by blast
qed

lemma exampleEnv_digest: "digestSHA256 exampleEnv data = take 32 (data @ replicate 32 0)"
  by (simp add: exampleEnv_def)

lemma hexPairs_zero: "concat (map hexPair (replicate n 0)) = replicate (2 * n) (CHR ''0'')"
  by (induction n) (simp_all add: hexPair_def hexDigit_zero)


text \<open>
  In the example deployment the digest is the first 32 bytes of the zero-padded data.
  A request with the body \<^verbatim>\<open>null\<close> gets the same key under another path and method, the
  key spells the bytes \<open>6e 75 6c 6c\<close> of the body and 28 zero bytes, and a body with
  one more space gets another key.
\<close>

theorem buildCacheKey_deterministic_witness:
  "buildCacheKey exampleEnv nullRequest =
     buildCacheKey exampleEnv (nullRequest\<lparr>pathname := ''/other'', httpMethod := ''GET''\<rparr>)
   \<and> buildCacheKey exampleEnv nullRequest =
       ''https://cache.internal/infographic:6e756c6c'' @ replicate 56 (CHR ''0'')
   \<and> buildCacheKey exampleEnv (nullRequest\<lparr>bodyText := ascii ''null ''\<rparr>)
       \<noteq> buildCacheKey exampleEnv nullRequest"
proof -
  let ?other = "nullRequest\<lparr>pathname := ''/other'', httpMethod := ''GET''\<rparr>"
  let ?spaced = "nullRequest\<lparr>bodyText := ascii ''null ''\<rparr>"
  have same: "bodyText nullRequest = bodyText ?other"
    by simp
  have len: "\<forall>data. length (digestSHA256 exampleEnv data) = 32"
    by (simp add: exampleEnv_digest min_def)
  have digest: "digestSHA256 exampleEnv (encodeText (bodyText nullRequest))
      = [110, 117, 108, 108] @ replicate 28 0"
    by (simp add: exampleEnv_digest nullRequest_def encodeText_examples(1))
  have spaced: "digestSHA256 exampleEnv (encodeText (bodyText ?spaced))
      = [110, 117, 108, 108, 32] @ replicate 27 0"
    by (simp add: exampleEnv_digest encodeText_def utf8_def scalarValue_def ascii_def)
  have "concat (map hexPair [110, 117, 108, 108]) = ''6e756c6c''"
    by (simp add: hexPair_def hexDigit_def hexDigits_def)
  moreover have "concat (map hexPair (replicate 28 0)) = replicate 56 (CHR ''0'')"
    using hexPairs_zero [of 28] by (simp only: mult_2 numeral_plus_numeral num.simps
      add_num_simps Num.BitM.simps one_plus_BitM inc.simps)
  ultimately have hex: "concat (map hexPair ([110, 117, 108, 108] @ replicate 28 0))
      = ''6e756c6c'' @ replicate 56 (CHR ''0'')"
    by (simp only: map_append concat_append)
  have n1: "([110, 117, 108, 108, 32] @ replicate 27 (0 :: byte)) ! 4 = 32"
    by simp
  have n2: "([110, 117, 108, 108] @ replicate 28 (0 :: byte)) ! 4 = 0"
    by (simp add: nth_append)
  have differ: "[110, 117, 108, 108, 32] @ replicate 27 (0 :: byte)
      \<noteq> [110, 117, 108, 108] @ replicate 28 0"
  proof
    assume e: "[110, 117, 108, 108, 32] @ replicate 27 (0 :: byte)
      = [110, 117, 108, 108] @ replicate 28 0"
    have "([110, 117, 108, 108, 32] @ replicate 27 (0 :: byte)) ! 4
      = ([110, 117, 108, 108] @ replicate 28 0) ! 4"
      by (simp only: e)
    with n1 n2 show False by simp
  qed
  from buildCacheKey_deterministic [OF same len] have
    k1: "buildCacheKey exampleEnv nullRequest = buildCacheKey exampleEnv ?other"
    and k2: "buildCacheKey exampleEnv nullRequest =
        ''https://cache.internal/infographic:''
          @ concat (map hexPair (digestSHA256 exampleEnv (encodeText (bodyText nullRequest))))"
    and k3: "buildCacheKey exampleEnv ?spaced = buildCacheKey exampleEnv nullRequest
          \<longleftrightarrow> digestSHA256 exampleEnv (encodeText (bodyText ?spaced))
              = digestSHA256 exampleEnv (encodeText (bodyText nullRequest))"
    by blast+
  have "buildCacheKey exampleEnv nullRequest =
       ''https://cache.internal/infographic:6e756c6c'' @ replicate 56 (CHR ''0'')"
    by (simp only: k2 digest hex) simp
  moreover have "buildCacheKey exampleEnv ?spaced \<noteq> buildCacheKey exampleEnv nullRequest"
    by (simp only: k3 digest spaced differ simp_thms)
  ultimately show ?thesis
    using k1 by blast
qed

section \<open>The router\<close>

text \<open>
  C9 holds for \<^verbatim>\<open>GET /api/health\<close> and fails for the other methods: the branch of
  \<^verbatim>\<open>/api/health\<close> does not look at the method, so a \<^verbatim>\<open>POST\<close> to it is answered with
  200 and the text \<^verbatim>\<open>OK\<close>, not with 404.
\<close>

theorem fetch_health_any_method:
  "fetch env w \<lparr>pathname = ''/api/health'', httpMethod = ''POST'', bodyText = text\<rparr> =
     (Returned (textResponse ''OK'' 200), w, [])
   \<and> status (textResponse ''OK'' 200) = 200"
  by (simp add: fetch_def textResponse_def)

lemma fetch_health:
  "pathname request = ''/api/health'' \<Longrightarrow>
     fetch env w request = (Returned (textResponse ''OK'' 200), w, [])"
  by (simp add: fetch_def)

text \<open>
  X3.  Every request that is not \<^verbatim>\<open>POST /api/infographic\<close>, not \<^verbatim>\<open>GET /api/species\<close>
  and not to the path \<^verbatim>\<open>/api/health\<close> is answered with 404.
\<close>

theorem fetch_not_found:
  assumes "\<not> (pathname request = ''/api/infographic'' \<and> httpMethod request = ''POST'')"
    and "\<not> (pathname request = ''/api/species'' \<and> httpMethod request = ''GET'')"
    and "pathname request \<noteq> ''/api/health''"
  shows "fetch env w request = (Returned (textResponse ''Not Found'' 404), w, [])"
  using assms by (auto simp: fetch_def)


section \<open>The request handler\<close>

lemma creaturesRendered_simps [simp]:
  "creaturesRendered [] = []"
  "creaturesRendered (e # es) = renderedCreature e @ creaturesRendered es"
  "creaturesRendered (xs @ ys) = creaturesRendered xs @ creaturesRendered ys"
  by (simp_all add: creaturesRendered_def)





text \<open>On Numbers the operator \<^verbatim>\<open>+\<close> is Number addition, and so is the sum of an array of Numbers.\<close>

lemma js_plus_numbers: "js_plus env (JNum a) (JNum b) = Some (JNum (js_add a b))"
  by (simp add: js_plus_def)

lemma reduceSum_numbers:
  "reduceSum env (JNum a) (map JNum ds) = Some (JNum (foldl js_add a ds))"
  by (induction ds arbitrary: a) (simp_all add: js_plus_numbers)

lemma buildCreature_numbers:
  assumes "nth_opt wilds 2 = Some (JNum torpidity)"
  shows "\<exists>creature.
           buildCreature env speciesNameV c wilds (map JNum ds) breeding current = Some creature
         \<and> level creature = JNum (js_add (js_add torpidity js_one) (foldl js_add js_zero ds))
         \<and> levelHatched creature = JNum (js_add torpidity js_one)"
  using assms by (simp add: buildCreature_def Let_def reduceSum_numbers js_plus_numbers)

lemma handleInfographic_known:
  assumes "cache w (buildCacheKey env request) = None"
    and "jsonParse env (bodyText request) = Some requestBody"
    and "validate requestBody = Valid c speciesNameV wilds doms"
    and "jsToString env speciesNameV = Some name"
    and "getSpeciesInfo (speciesMetaJson env) name = Some sp"
  shows "handleInfographic env w request =
           computeAndRender env w (buildCacheKey env request) requestBody c speciesNameV name
             wilds doms sp
             [CacheMatch (buildCacheKey env request), GetSpeciesInfo speciesNameV]"
  using assms by (simp add: handleInfographic_def Let_def)




subsection \<open>The example request\<close>

lemma example_miss: "cache exampleWorld key = None"
  by (simp add: exampleWorld_def)

lemma example_parse: "jsonParse exampleEnv (bodyText exampleRequest) = Some exampleBody"
  by (simp add: exampleEnv_def exampleRequest_def)

lemma example_valid:
  "validate exampleBody =
     Valid exampleCreature (JStr ''Rex'')
       (map JNum [js_zero, js_zero, ten, js_zero, js_zero, js_zero,
                  js_zero, js_zero, js_zero, js_zero, js_zero, js_zero])
       (map JNum (replicate 12 js_zero))"
  by (simp add: validate_def exampleBody_def exampleCreature_def)

lemma example_name: "jsToString env (JStr ''Rex'') = Some ''Rex''"
  by simp

lemma example_known:
  "getSpeciesInfo (speciesMetaJson exampleEnv) ''Rex''
     = Some (Meta (speciesMetaEntry exampleSpecies []))"
  by (simp add: getSpeciesInfo_def exampleEnv_def)

lemma greaterThanZero_zero: "greaterThanZero env (JNum js_zero) = Some False"
  by (simp add: greaterThanZero_def js_gt_def)

lemma isTamedOf_default:
  assumes "readProp c ''isBred'' = None" and "readProp c ''tamingEffectiveness'' = None"
  shows "isTamedOf env c = Some (JBool False)" and "tamingOf c = JNum js_zero"
  using assms by (simp_all add: isTamedOf_def tamingOf_def greaterThanZero_zero)

lemma example_tamed: "isTamedOf exampleEnv exampleCreature = Some (JBool False)"
  by (rule isTamedOf_default) (simp_all add: exampleCreature_def)

lemma example_stats:
  "computeStatValues exampleEnv (Meta entry) wilds doms mutated isTamed taming imprinting
     = Some ([], [])"
  by (simp add: exampleEnv_def)






subsection \<open>A level entry that is a string\<close>

lemma toDecimal_digit: "n < 10 \<Longrightarrow> toDecimal n = [decimalDigits ! n]"
  by (simp add: toDecimal.simps [of n])

lemma numberToString_zero: "numberToString env js_zero = ''0''"
  by (simp add: numberToString_def js_zero_def safeInteger_def significand_def toDecimal_digit
      decimalDigits_def)


lemma js_plus_number_string:
  "js_plus env (JNum a) (JStr s) = Some (JStr (numberToString env a @ s))"
  "js_plus env (JStr s) (JNum a) = Some (JStr (s @ numberToString env a))"
  by (simp_all add: js_plus_def)




lemma string_sum:
  "reduceSum env (JNum js_zero)
     [JStr ''5'', JNum js_zero, JNum js_zero, JNum js_zero, JNum js_zero, JNum js_zero,
      JNum js_zero, JNum js_zero, JNum js_zero, JNum js_zero, JNum js_zero, JNum js_zero]
   = Some (JStr ''0500000000000'')"
  by (simp add: js_plus_number_string numberToString_zero)


lemma renderAndCache_svg:
  assumes "readProp requestBody ''options'' = None"
    and "renderInfoGraphicSvg env creature sp
           (assignOwn (DEFAULT_SERVER_SETTINGS env) ''game''
              (orDefault (readProp requestBody ''game'') (JStr ''ASA'')))
           (spread (DEFAULT_CONFIG env) [])
           (fst (fetchCreatureImage env name sp
              (assignOwn (DEFAULT_SERVER_SETTINGS env) ''game''
                 (orDefault (readProp requestBody ''game'') (JStr ''ASA''))) (colors creature)))
         = Some svg"
  shows "fst (renderAndCache env w cacheKey requestBody creature name sp events)
           = Returned (renderedResponse ''image/svg+xml'' (TextBody svg))"
proof -
  let ?server = "assignOwn (DEFAULT_SERVER_SETTINGS env) ''game''
                   (orDefault (readProp requestBody ''game'') (JStr ''ASA''))"
  obtain img spriteEvents where
    f: "fetchCreatureImage env name sp ?server (colors creature) = (img, spriteEvents)"
    by fastforce
  from assms(2) have
    "renderInfoGraphicSvg env creature sp ?server (spread (DEFAULT_CONFIG env) []) img = Some svg"
    by (simp add: f)
  then show ?thesis
    by (simp add: renderAndCache_def Let_def f assms(1))
qed

lemma example_svg:
  "renderInfoGraphicSvg exampleEnv creature sp server config img = Some ''<svg/>''"
  by (simp add: exampleEnv_def)


subsection \<open>Validation\<close>

lemma handleInfographic_null_body:
  assumes "cache w (buildCacheKey env request) = None"
    and "jsonParse env (bodyText request) = Some JNull"
  shows "handleInfographic env w request
           = (Threw TypeError, w, [CacheMatch (buildCacheKey env request)])"
  using assms by (simp add: handleInfographic_def Let_def validate_def)

lemma validate_not_Valid:
  assumes "requestBody \<noteq> JNull"
    and "\<not> (\<exists>c. readProp requestBody ''creature'' = Some c
              \<and> truthy (readProp c ''speciesName'')
              \<and> isArrayOf12 (readProp c ''levelsWild'')
              \<and> isArrayOf12 (readProp c ''levelsDom''))"
  shows "validate requestBody
           = Invalid ''Missing required fields: creature.speciesName, creature.levelsWild, creature.levelsDom''
       \<or> validate requestBody
           = Invalid ''levelsWild and levelsDom must be arrays of exactly 12 numbers''"
  using assms
  by (auto simp: validate_def isArrayOf12_def split: option.splits json.splits)

text \<open>
  X1.  Every parsed body other than \<^verbatim>\<open>null\<close> that lacks a truthy species name, or whose
  \<^verbatim>\<open>levelsWild\<close> or \<^verbatim>\<open>levelsDom\<close> is not an array of exactly 12 entries, is answered on
  a cache miss with status 400 and a JSON error that names the fields; the run makes no
  call after the cache probe and leaves the cache as it was.
\<close>

theorem handleInfographic_invalid_body:
  assumes "cache w (buildCacheKey env request) = None"
    and "jsonParse env (bodyText request) = Some requestBody"
    and "requestBody \<noteq> JNull"
    and "\<not> (\<exists>c. readProp requestBody ''creature'' = Some c
              \<and> truthy (readProp c ''speciesName'')
              \<and> isArrayOf12 (readProp c ''levelsWild'')
              \<and> isArrayOf12 (readProp c ''levelsDom''))"
  shows "\<exists>message.
           handleInfographic env w request
             = (Returned (errorResponse message), w, [CacheMatch (buildCacheKey env request)])
         \<and> status (errorResponse message) = 400
         \<and> body (errorResponse message) = JsonBody (JObj [(''error'', JStr message)])
         \<and> (message = ''Missing required fields: creature.speciesName, creature.levelsWild, creature.levelsDom''
              \<or> message = ''levelsWild and levelsDom must be arrays of exactly 12 numbers'')"
proof -
  from validate_not_Valid [OF assms(3,4)] obtain message where
    v: "validate requestBody = Invalid message"
    and m: "message = ''Missing required fields: creature.speciesName, creature.levelsWild, creature.levelsDom''
              \<or> message = ''levelsWild and levelsDom must be arrays of exactly 12 numbers''"
    by blast
  have "handleInfographic env w request
          = (Returned (errorResponse message), w, [CacheMatch (buildCacheKey env request)])"
    using assms(1,2) v by (simp add: handleInfographic_def Let_def)
  moreover have "status (errorResponse message) = 400"
    and "body (errorResponse message) = JsonBody (JObj [(''error'', JStr message)])"
    by (simp_all add: errorResponse_def jsonResponse_def)
  ultimately show ?thesis using m by blast
qed

lemma null_parse: "jsonParse exampleEnv (bodyText nullRequest) = Some JNull"
  by (simp add: exampleEnv_def nullRequest_def)

text \<open>
  C5 holds for every body but one.  The body \<^verbatim>\<open>null\<close> is valid JSON and has none of the
  required fields, yet the handler does not answer it with 400: the read
  \<^verbatim>\<open>body.creature\<close> throws a TypeError that nothing catches.
\<close>

theorem fetch_null_body_throws:
  "fetch exampleEnv exampleWorld nullRequest
     = (Threw TypeError, exampleWorld, [CacheMatch (buildCacheKey exampleEnv nullRequest)])"
proof -
  have "fetch exampleEnv exampleWorld nullRequest
          = handleInfographic exampleEnv exampleWorld nullRequest"
    by (simp add: fetch_def nullRequest_def)
  then show ?thesis
    by (simp add: handleInfographic_null_body [OF example_miss null_parse])
qed

subsection \<open>Species lookup\<close>

lemma getSpeciesInfo_inherited:
  assumes "map_of speciesMap name = None" and "name \<in> set objectPrototypeProperties"
  shows "getSpeciesInfo speciesMap name = Some (Inherited name)"
  using assms by (simp add: getSpeciesInfo_def)

lemma getSpeciesInfo_None:
  "getSpeciesInfo speciesMap name = None
     \<longleftrightarrow> map_of speciesMap name = None \<and> name \<notin> set objectPrototypeProperties"
  by (simp add: getSpeciesInfo_def split: option.split)

text \<open>
  X2.  A valid request for a species name whose string is neither in the species table
  nor a member of \<^verbatim>\<open>Object.prototype\<close> is answered with status 400 and the error
  \<^verbatim>\<open>Unknown species: <name>\<close>; the run ends after the lookup, with no cache write.
\<close>

theorem handleInfographic_unknown_species:
  assumes "cache w (buildCacheKey env request) = None"
    and "jsonParse env (bodyText request) = Some requestBody"
    and "validate requestBody = Valid c speciesNameV wilds doms"
    and "jsToString env speciesNameV = Some name"
    and "map_of (speciesMetaJson env) name = None"
    and "name \<notin> set objectPrototypeProperties"
  shows "handleInfographic env w request
           = (Returned (errorResponse (''Unknown species: '' @ name)), w,
              [CacheMatch (buildCacheKey env request), GetSpeciesInfo speciesNameV])
       \<and> status (errorResponse (''Unknown species: '' @ name)) = 400"
  using assms
  by (simp add: handleInfographic_def Let_def getSpeciesInfo_def errorResponse_def jsonResponse_def)

lemma renderAndCache_status:
  assumes "fst (renderAndCache env w cacheKey requestBody creature name sp events) = Returned r"
  shows "status r = 200"
  using assms
  by (auto simp: renderAndCache_def Let_def renderedResponse_def
      split: prod.splits option.splits if_splits)

lemma computeAndRender_status:
  assumes "fst (computeAndRender env w cacheKey requestBody c speciesNameV name wilds doms sp
             events) = Returned r"
  shows "status r = 200"
  using assms renderAndCache_status
  by (auto simp: computeAndRender_def Let_def split: option.splits prod.splits)

text \<open>
  A name that is not in the table but is a member of \<^verbatim>\<open>Object.prototype\<close> passes the
  guard \<^verbatim>\<open>if (!species)\<close>: the handler goes on to the stat function with the inherited
  member, and whatever it then returns is not a 400 response.
\<close>

lemma handleInfographic_inherited_species:
  assumes "cache w (buildCacheKey env request) = None"
    and "jsonParse env (bodyText request) = Some requestBody"
    and "validate requestBody = Valid c speciesNameV wilds doms"
    and "jsToString env speciesNameV = Some name"
    and "map_of (speciesMetaJson env) name = None"
    and "name \<in> set objectPrototypeProperties"
  shows "handleInfographic env w request
           = computeAndRender env w (buildCacheKey env request) requestBody c speciesNameV name
               wilds doms (Inherited name)
               [CacheMatch (buildCacheKey env request), GetSpeciesInfo speciesNameV]"
    and "fst (handleInfographic env w request) = Returned r \<Longrightarrow> status r = 200"
proof -
  show e: "handleInfographic env w request
           = computeAndRender env w (buildCacheKey env request) requestBody c speciesNameV name
               wilds doms (Inherited name)
               [CacheMatch (buildCacheKey env request), GetSpeciesInfo speciesNameV]"
    by (rule handleInfographic_known [OF assms(1-4) getSpeciesInfo_inherited [OF assms(5,6)]])
  show "fst (handleInfographic env w request) = Returned r \<Longrightarrow> status r = 200"
    unfolding e by (rule computeAndRender_status)
qed

lemma constructor_parse:
  "jsonParse exampleEnv (bodyText constructorRequest) = Some constructorBody"
  by (simp add: exampleEnv_def constructorRequest_def)

lemma constructor_valid:
  "validate constructorBody =
     Valid constructorCreature (JStr ''constructor'')
       (map JNum (replicate 12 js_zero)) (map JNum (replicate 12 js_zero))"
  by (simp add: validate_def constructorBody_def constructorCreature_def)

lemma constructor_name: "jsToString env (JStr ''constructor'') = Some ''constructor''"
  by simp

lemma constructor_unknown: "map_of (speciesMetaJson exampleEnv) ''constructor'' = None"
  by (simp add: exampleEnv_def)

lemma constructor_inherited: "''constructor'' \<in> set objectPrototypeProperties"
  by (simp add: objectPrototypeProperties_def)

lemma constructor_tamed:
  "isTamedOf exampleEnv constructorCreature = Some (JBool False)"
  "tamingOf constructorCreature = JNum js_zero"
  by (rule isTamedOf_default; simp add: constructorCreature_def)+

text \<open>
  C6 fails for the twelve names that every object inherits.  In the example deployment
  \<^verbatim>\<open>constructor\<close> is not a species of the table, and a request for it is not answered
  with 400: the lookup returns the inherited member, and the handler calls the stat
  function with it.
\<close>

theorem fetch_constructor_species:
  "map_of (speciesMetaJson exampleEnv) ''constructor'' = None
   \<and> getSpeciesInfo (speciesMetaJson exampleEnv) ''constructor'' = Some (Inherited ''constructor'')
   \<and> fetch exampleEnv exampleWorld constructorRequest
       = (Threw LibraryError, exampleWorld,
          [CacheMatch (buildCacheKey exampleEnv constructorRequest),
           GetSpeciesInfo (JStr ''constructor''),
           ComputeStatValues (Inherited ''constructor'') (JArr (map JNum (replicate 12 js_zero)))
             (JArr (map JNum (replicate 12 js_zero))) (JBool False) (JNum js_zero)])"
proof -
  have f: "fetch exampleEnv exampleWorld constructorRequest
          = handleInfographic exampleEnv exampleWorld constructorRequest"
    by (simp add: fetch_def constructorRequest_def)
  have "computeStatValues exampleEnv (Inherited key) wilds doms mutated isTamed taming imprinting
          = None" for key wilds doms mutated isTamed taming imprinting
    by (simp add: exampleEnv_def)
  then have "handleInfographic exampleEnv exampleWorld constructorRequest
       = (Threw LibraryError, exampleWorld,
          [CacheMatch (buildCacheKey exampleEnv constructorRequest),
           GetSpeciesInfo (JStr ''constructor''),
           ComputeStatValues (Inherited ''constructor'') (JArr (map JNum (replicate 12 js_zero)))
             (JArr (map JNum (replicate 12 js_zero))) (JBool False) (JNum js_zero)])"
    by (simp add: handleInfographic_inherited_species(1) [OF example_miss constructor_parse
          constructor_valid constructor_name constructor_unknown constructor_inherited]
        computeAndRender_def constructor_tamed Let_def del: map_replicate)
  with f show ?thesis
    by (simp add: constructor_unknown
        getSpeciesInfo_inherited [OF constructor_unknown constructor_inherited])
qed


subsection \<open>Region colours\<close>

lemma resolveRegionColors_Meta:
  "resolveRegionColors colorMap (Meta entry) colorIds
     = Some (map (regionColor colorMap (enabledColorRegions entry) colorIds) [0..<6])"
  by (simp add: resolveRegionColors_def)

lemma strictEqualsNumber_zero: "strictEqualsNumber (JNum js_zero) js_zero"
  by (simp add: strictEqualsNumber_def js_strict_eq_def js_zero_def)

lemma regionColor_eq:
  "regionColor colorMap enabled colorIds i =
     (if nth_opt enabled i = Some True
         \<and> (\<exists>colorId. elementAt colorIds i = Some colorId \<and> colorId \<noteq> JNull
               \<and> \<not> strictEqualsNumber colorId js_zero)
      then (case getColor colorMap (orDefault (elementAt colorIds i) (JNum js_zero))
              of (r, g, b, a) \<Rightarrow> Some (r, g, b))
      else None)"
proof (cases "elementAt colorIds i")
  case None
  then show ?thesis
    by (simp add: regionColor_def Let_def strictEqualsNumber_zero)
next
  case (Some colorId)
  show ?thesis
  proof (cases "colorId = JNull")
    case True
    with Some show ?thesis
      by (simp add: regionColor_def Let_def strictEqualsNumber_zero)
  next
    case False
    then have "orDefault (Some colorId) (JNum js_zero) = colorId"
      by (cases colorId) simp_all
    with Some False show ?thesis
      by (simp add: regionColor_def Let_def)
  qed
qed

lemma fetchCreatureImage_colorize:
  assumes "ColorizeCreature regionColors \<in> set (snd (fetchCreatureImage env name sp server colorIds))"
  shows "resolveRegionColors (colorMapLoop (arkColorToSrgb env) [] (colorsJson env)) sp colorIds
           = Some regionColors"
  using assms
  by (auto simp: fetchCreatureImage_def Let_def split: if_splits sprite_get.splits option.splits)

text \<open>
  C8.  Whenever the handler resolves region colours (the region colours it passes to
  \<^verbatim>\<open>colorizeCreature\<close>), there are six of them, and region \<open>i\<close> has the looked-up colour
  of its colour id exactly when the species has region \<open>i\<close> enabled and the request
  gives region \<open>i\<close> a colour id that is not zero; a disabled region, a zero id and an
  absent id (\<^verbatim>\<open>undefined\<close> or \<^verbatim>\<open>null\<close>) give no colour.  \<open>colorIds\<close> is the member \<^verbatim>\<open>colors\<close>
  of the creature, whatever JSON value it is.
\<close>

theorem regionColors_resolved:
  assumes "ColorizeCreature regionColors \<in> set (snd (fetchCreatureImage env name sp server colorIds))"
    and "i < 6"
  shows "\<exists>entry. sp = Meta entry
     \<and> length regionColors = 6
     \<and> regionColors ! i =
        (if nth_opt (enabledColorRegions entry) i = Some True
            \<and> (\<exists>colorId. elementAt colorIds i = Some colorId \<and> colorId \<noteq> JNull
                  \<and> \<not> strictEqualsNumber colorId js_zero)
         then (case getColor (colorMapLoop (arkColorToSrgb env) [] (colorsJson env))
                      (orDefault (elementAt colorIds i) (JNum js_zero))
                 of (r, g, b, a) \<Rightarrow> Some (r, g, b))
         else None)"
proof -
  let ?colorMap = "colorMapLoop (arkColorToSrgb env) [] (colorsJson env)"
  have r: "resolveRegionColors ?colorMap sp colorIds = Some regionColors"
    by (rule fetchCreatureImage_colorize [OF assms(1)])
  then obtain entry where sp: "sp = Meta entry"
    by (cases sp) (simp_all add: resolveRegionColors_def)
  with r have "regionColors = map (regionColor ?colorMap (enabledColorRegions entry) colorIds) [0..<6]"
    by (simp add: resolveRegionColors_Meta)
  then have "length regionColors = 6"
    and "regionColors ! i = regionColor ?colorMap (enabledColorRegions entry) colorIds i"
    using assms(2) by simp_all
  with sp show ?thesis
    by (simp only: regionColor_eq) blast
qed

lemma number_of_nat_ids:
  "number_of_nat 1 = js_one"
  "number_of_nat 2 = Finite False 1024 0"
  "number_of_nat 201 = Finite False 1030 2568459162484736"
  by (simp_all add: number_of_nat_def js_one_def roundTiesToEven_def Let_def compute_floorlog
      shiftRightTiesToEven_def)

lemma example_enabled:
  "enabledColorRegions (speciesMetaEntry exampleSpecies [])
     = [True, False, False, False, False, False]"
  by (simp add: speciesMetaEntry_def Let_def extractEnabledColorRegions_def regionAt_def
      nth_opt_def exampleSpecies_def upt_rec)

lemma example_colorMap:
  "colorMapLoop (arkColorToSrgb exampleEnv) [] (colorsJson exampleEnv) =
     [(js_one, ten, ten, ten, number_of_nat 255),
      (Finite False 1024 0, ten, ten, ten, number_of_nat 255),
      (Finite False 1030 2568459162484736, ten, ten, ten, number_of_nat 255)]"
proof -
  have "colorsJson exampleEnv =
     [\<lparr>color_id = 1, color_name = ''Red'', linearRgba = (js_one, js_zero, js_zero, js_one),
        isDye = False\<rparr>,
      \<lparr>color_id = 2, color_name = ''Blue'', linearRgba = (js_zero, js_zero, js_one, js_one),
        isDye = False\<rparr>,
      \<lparr>color_id = 201, color_name = ''Black'', linearRgba = (js_zero, js_zero, js_zero, js_one),
        isDye = True\<rparr>]"
    by (simp add: exampleEnv_def extractColors_def exampleValues_def upt_rec)
  moreover have "arkColorToSrgb exampleEnv entry = (ten, ten, ten)" for entry
    by (simp add: exampleEnv_def)
  moreover have "number_of_nat (Suc 0) = js_one"
    using number_of_nat_ids(1) by simp
  ultimately show ?thesis
    by (simp add: number_of_nat_ids sameValueZero_def js_one_def)
qed

lemma example_getColor:
  "getColor (colorMapLoop (arkColorToSrgb exampleEnv) [] (colorsJson exampleEnv)) (JNum js_one)
     = (ten, ten, ten, number_of_nat 255)"
  by (simp add: example_colorMap getColor_def strictEqualsNumber_def colorMapGet_def
      js_strict_eq_def sameValueZero_def js_one_def js_zero_def)

lemma example_regionColors:
  "resolveRegionColors (colorMapLoop (arkColorToSrgb exampleEnv) [] (colorsJson exampleEnv))
     (Meta (speciesMetaEntry exampleSpecies []))
     (JArr (map JNum [js_one, js_zero, js_zero, ten, js_zero, js_zero]))
   = Some [Some (ten, ten, ten), None, None, None, None, None]"
proof -
  have z: "strictEqualsNumber (JNum js_zero) js_zero" "\<not> strictEqualsNumber (JNum js_one) js_zero"
    by (simp_all add: strictEqualsNumber_def js_strict_eq_def js_zero_def js_one_def)
  show ?thesis
    by (simp add: resolveRegionColors_Meta example_enabled regionColor_def Let_def nth_opt_def
        upt_rec z example_getColor)
qed

lemma example_image:
  "snd (fetchCreatureImage exampleEnv ''Rex'' (Meta (speciesMetaEntry exampleSpecies []))
          [(''game'', JStr ''ASA'')]
          (JArr (map JNum [js_one, js_zero, js_zero, ten, js_zero, js_zero])))
   = [SpriteGet ''Rex_ASA.png'', SpriteGet ''Rex_ASA_m.png'',
      ColorizeCreature [Some (ten, ten, ten), None, None, None, None, None]]"
proof -
  have "sprites exampleEnv ''Rex_ASA.png'' = SpriteObject [1, 2, 3]"
    and "sprites exampleEnv ''Rex_ASA_m.png'' = SpriteObject [4, 5]"
    and "colorizeCreature exampleEnv baseBytes maskBytes regionColors = Some baseBytes"
    for baseBytes maskBytes regionColors
    by (simp_all add: exampleEnv_def)
  then show ?thesis
    by (simp add: fetchCreatureImage_def Let_def example_regionColors del: list.map)
qed

text \<open>
  The example species has only region 0 enabled, and the example request gives the
  colour ids 1 for region 0 and 10 for region 3: region 0 gets the colour of id 1, and
  region 3, which is disabled, gets no colour although its id is not zero.
\<close>

theorem regionColors_resolved_witness:
  "ColorizeCreature [Some (ten, ten, ten), None, None, None, None, None]
     \<in> set (snd (fetchCreatureImage exampleEnv ''Rex'' (Meta (speciesMetaEntry exampleSpecies []))
          [(''game'', JStr ''ASA'')]
          (JArr (map JNum [js_one, js_zero, js_zero, ten, js_zero, js_zero]))))
   \<and> nth_opt (enabledColorRegions (speciesMetaEntry exampleSpecies [])) 3 = Some False
   \<and> elementAt (JArr (map JNum [js_one, js_zero, js_zero, ten, js_zero, js_zero])) 3
       = Some (JNum ten)
   \<and> \<not> strictEqualsNumber (JNum ten) js_zero
   \<and> [Some (ten, ten, ten), None, None, None, None, None] ! 3 = None"
proof -
  let ?colors = "[Some (ten, ten, ten), None, None, None, None, None]"
  let ?ids = "JArr (map JNum [js_one, js_zero, js_zero, ten, js_zero, js_zero])"
  have mem: "ColorizeCreature ?colors
     \<in> set (snd (fetchCreatureImage exampleEnv ''Rex'' (Meta (speciesMetaEntry exampleSpecies []))
          [(''game'', JStr ''ASA'')] ?ids))"
    by (simp only: example_image) simp
  have i: "(3::nat) < 6" by simp
  have disabled: "nth_opt (enabledColorRegions (speciesMetaEntry exampleSpecies [])) 3 = Some False"
    by (simp add: example_enabled nth_opt_def)
  have given: "elementAt ?ids 3 = Some (JNum ten)"
    by (simp add: nth_opt_def)
  have nonzero: "\<not> strictEqualsNumber (JNum ten) js_zero"
    by (simp add: strictEqualsNumber_def js_strict_eq_def ten_def js_zero_def)
  from regionColors_resolved [OF mem i] obtain entry where
    e: "Meta (speciesMetaEntry exampleSpecies []) = Meta entry"
    and v: "?colors ! 3 =
        (if nth_opt (enabledColorRegions entry) 3 = Some True
            \<and> (\<exists>colorId. elementAt ?ids 3 = Some colorId \<and> colorId \<noteq> JNull
                  \<and> \<not> strictEqualsNumber colorId js_zero)
         then (case getColor (colorMapLoop (arkColorToSrgb exampleEnv) [] (colorsJson exampleEnv))
                      (orDefault (elementAt ?ids 3) (JNum js_zero))
                 of (r, g, b, a) \<Rightarrow> Some (r, g, b))
         else None)"
    by blast
  from e have "entry = speciesMetaEntry exampleSpecies []" by simp
  with v disabled have "?colors ! 3 = None" by (simp only: option.inject simp_thms if_False)
  with mem disabled given nonzero show ?thesis by blast
qed


subsection \<open>Further properties of the handler\<close>

lemma handleInfographic_cache_hit:
  assumes "cache w (buildCacheKey env request) = Some cached"
  shows "handleInfographic env w request
           = (Returned cached, w, [CacheMatch (buildCacheKey env request)])"
  using assms by (simp add: handleInfographic_def Let_def)

lemma renderAndCache_cached:
  assumes "renderAndCache env w cacheKey requestBody creature name sp events = (Returned r, w', tr)"
  shows "cache w' cacheKey = Some r"
proof -
  obtain img spriteEvents where
    f: "fetchCreatureImage env name sp
          (assignOwn (DEFAULT_SERVER_SETTINGS env) ''game''
             (orDefault (readProp requestBody ''game'') (JStr ''ASA''))) (colors creature)
          = (img, spriteEvents)"
    by fastforce
  obtain w1 initEvents where i: "ensureInitialized w = (w1, initEvents)"
    by fastforce
  from assms show ?thesis
    by (auto simp: renderAndCache_def Let_def f i split: option.splits if_splits)
qed

lemma computeAndRender_cached:
  assumes "computeAndRender env w cacheKey requestBody c speciesNameV name wilds doms sp events
             = (Returned r, w', tr)"
  shows "cache w' cacheKey = Some r"
  using assms renderAndCache_cached
  by (auto simp: computeAndRender_def Let_def split: option.splits prod.splits)

text \<open>
  X5.  A request answered with a rendered response is answered from the cache when it is sent
  again: the second run returns the same response and does nothing but probe the cache.
\<close>

theorem handleInfographic_second_call:
  assumes "handleInfographic env w request = (Returned r, w', tr)" and "status r = 200"
  shows "handleInfographic env w' request
           = (Returned r, w', [CacheMatch (buildCacheKey env request)])"
proof -
  have "cache w' (buildCacheKey env request) = Some r"
    using assms computeAndRender_cached
    by (auto simp: handleInfographic_def Let_def errorResponse_def jsonResponse_def
        split: option.splits validation.splits)
  then show ?thesis by (rule handleInfographic_cache_hit)
qed


subsection \<open>The example deployment, end to end\<close>

lemma example_response:
  "fst (handleInfographic exampleEnv exampleWorld exampleRequest)
     = Returned (renderedResponse ''image/svg+xml'' (TextBody ''<svg/>''))"
proof -
  have "nth_opt (map JNum [js_zero, js_zero, ten, js_zero, js_zero, js_zero,
                     js_zero, js_zero, js_zero, js_zero, js_zero, js_zero]) 2 = Some (JNum ten)"
    by (simp add: nth_opt_def)
  from buildCreature_numbers [OF this, of exampleEnv "JStr ''Rex''" exampleCreature
      "replicate 12 js_zero" "[]" "[]"]
  obtain creature where
    b: "buildCreature exampleEnv (JStr ''Rex'') exampleCreature
          (map JNum [js_zero, js_zero, ten, js_zero, js_zero, js_zero,
                     js_zero, js_zero, js_zero, js_zero, js_zero, js_zero])
          (map JNum (replicate 12 js_zero)) [] [] = Some creature"
    by blast
  show ?thesis
    unfolding handleInfographic_known [OF example_miss example_parse example_valid
          example_name example_known]
    by (simp add: computeAndRender_def example_tamed example_stats b Let_def
        renderAndCache_svg exampleBody_def example_svg del: list.map map_replicate)
qed

theorem handleInfographic_second_call_witness:
  "\<exists>r w' tr.
     handleInfographic exampleEnv exampleWorld exampleRequest = (Returned r, w', tr)
     \<and> status r = 200
     \<and> handleInfographic exampleEnv w' exampleRequest
          = (Returned r, w', [CacheMatch (buildCacheKey exampleEnv exampleRequest)])"
proof -
  obtain w' tr where
    first: "handleInfographic exampleEnv exampleWorld exampleRequest
      = (Returned (renderedResponse ''image/svg+xml'' (TextBody ''<svg/>'')), w', tr)"
    using example_response
    by (cases "handleInfographic exampleEnv exampleWorld exampleRequest") auto
  have ok: "status (renderedResponse ''image/svg+xml'' (TextBody ''<svg/>'')) = 200"
    by (simp add: renderedResponse_def)
  from handleInfographic_second_call [OF first ok] first ok show ?thesis by blast
qed

theorem handleInfographic_invalid_body_witness:
  "handleInfographic exampleEnv exampleWorld noLevelsDomRequest
     = (Returned (errorResponse
          ''Missing required fields: creature.speciesName, creature.levelsWild, creature.levelsDom''),
        exampleWorld, [CacheMatch (buildCacheKey exampleEnv noLevelsDomRequest)])"
proof -
  have p: "jsonParse exampleEnv (bodyText noLevelsDomRequest) = Some noLevelsDomBody"
    by (simp add: exampleEnv_def noLevelsDomRequest_def)
  have n: "noLevelsDomBody \<noteq> JNull"
    by (simp add: noLevelsDomBody_def)
  have m: "\<not> (\<exists>c. readProp noLevelsDomBody ''creature'' = Some c
              \<and> truthy (readProp c ''speciesName'')
              \<and> isArrayOf12 (readProp c ''levelsWild'')
              \<and> isArrayOf12 (readProp c ''levelsDom''))"
    by (auto simp: noLevelsDomBody_def isArrayOf12_def)
  from handleInfographic_invalid_body [OF example_miss p n m] obtain message where
    h: "handleInfographic exampleEnv exampleWorld noLevelsDomRequest
        = (Returned (errorResponse message), exampleWorld,
           [CacheMatch (buildCacheKey exampleEnv noLevelsDomRequest)])"
    and "message = ''Missing required fields: creature.speciesName, creature.levelsWild, creature.levelsDom''
           \<or> message = ''levelsWild and levelsDom must be arrays of exactly 12 numbers''"
    by blast
  moreover have "message \<noteq> ''levelsWild and levelsDom must be arrays of exactly 12 numbers''"
  proof
    assume "message = ''levelsWild and levelsDom must be arrays of exactly 12 numbers''"
    with h have "handleInfographic exampleEnv exampleWorld noLevelsDomRequest
        = (Returned (errorResponse ''levelsWild and levelsDom must be arrays of exactly 12 numbers''),
           exampleWorld, [CacheMatch (buildCacheKey exampleEnv noLevelsDomRequest)])"
      by simp
    then show False
      using example_miss [of "buildCacheKey exampleEnv noLevelsDomRequest"] p
      by (simp add: handleInfographic_def Let_def validate_def noLevelsDomBody_def
          errorResponse_def jsonResponse_def)
  qed
  ultimately show ?thesis by blast
qed

theorem handleInfographic_unknown_species_witness:
  "handleInfographic exampleEnv exampleWorld unicornRequest
     = (Returned (errorResponse ''Unknown species: Unicorn''), exampleWorld,
        [CacheMatch (buildCacheKey exampleEnv unicornRequest), GetSpeciesInfo (JStr ''Unicorn'')])
   \<and> status (errorResponse ''Unknown species: Unicorn'') = 400"
proof -
  have p: "jsonParse exampleEnv (bodyText unicornRequest) = Some unicornBody"
    by (simp add: exampleEnv_def unicornRequest_def)
  have v: "validate unicornBody =
      Valid (JObj [(''speciesName'', JStr ''Unicorn''),
                  (''levelsWild'', JArr (map JNum (replicate 12 js_zero))),
                  (''levelsDom'', JArr (map JNum (replicate 12 js_zero)))])
        (JStr ''Unicorn'') (map JNum (replicate 12 js_zero)) (map JNum (replicate 12 js_zero))"
    by (simp add: validate_def unicornBody_def)
  have n: "jsToString exampleEnv (JStr ''Unicorn'') = Some ''Unicorn''"
    by simp
  have u: "map_of (speciesMetaJson exampleEnv) ''Unicorn'' = None"
    by (simp add: exampleEnv_def)
  have o: "''Unicorn'' \<notin> set objectPrototypeProperties"
    by (simp add: objectPrototypeProperties_def)
  from handleInfographic_unknown_species [OF example_miss p v n u o] show ?thesis
    by simp
qed

theorem fetch_not_found_witness:
  "fetch exampleEnv exampleWorld
     \<lparr>pathname = ''/api/species'', httpMethod = ''DELETE'', bodyText = []\<rparr>
     = (Returned (textResponse ''Not Found'' 404), exampleWorld, [])"
  by (rule fetch_not_found) simp_all

theorem extractStat_fallback_witness:
  "extractStat exampleSpecies (loadStatMultipliers None ''official'') 0
     = Some (Finite False 1033 0, Finite False 1020 0, Finite False 1021 0,
             Finite False 1022 0, js_zero)"
proof -
  let ?raw = "[Finite False 1033 0, Finite False 1020 0, Finite False 1021 0,
               Finite False 1022 0, js_zero]"
  have a: "(None :: (string \<rightharpoonup> StatMultiplier option list option) option) = None
      \<or> (\<exists>d. (None :: (string \<rightharpoonup> StatMultiplier option list option) option) = Some d
            \<and> (d ''official'' = None \<or> d ''official'' = Some None))"
    by simp
  have r: "rawStatAt exampleSpecies 0 = Some ?raw"
    by (simp add: rawStatAt_def exampleSpecies_def nth_opt_def)
  have l: "5 \<le> length ?raw" by simp
  have n: "list_all is_number ?raw" by (simp add: js_zero_def)
  from extractStat_fallback [OF a r l n] show ?thesis by simp
qed

subsection \<open>Region colours in a run of the handler\<close>

lemma buildCreature_colors:
  assumes "buildCreature env speciesNameV c wilds doms breeding current = Some creature"
  shows "colors creature = orDefault (readProp c ''colors'') (JArr (replicate 6 (JNum js_zero)))"
  using assms by (auto simp: buildCreature_def Let_def split: option.splits)

lemma renderAndCache_colorize:
  assumes "ColorizeCreature regionColors
             \<in> set (snd (snd (renderAndCache env w cacheKey requestBody creature name sp events)))"
  shows "ColorizeCreature regionColors \<in> set events
       \<or> ColorizeCreature regionColors
            \<in> set (snd (fetchCreatureImage env name sp
                 (assignOwn (DEFAULT_SERVER_SETTINGS env) ''game''
                    (orDefault (readProp requestBody ''game'') (JStr ''ASA''))) (colors creature)))"
proof -
  obtain img spriteEvents where
    f: "fetchCreatureImage env name sp
          (assignOwn (DEFAULT_SERVER_SETTINGS env) ''game''
             (orDefault (readProp requestBody ''game'') (JStr ''ASA''))) (colors creature)
          = (img, spriteEvents)"
    by fastforce
  obtain w1 initEvents where i: "ensureInitialized w = (w1, initEvents)"
    by fastforce
  then have "ColorizeCreature regionColors \<notin> set initEvents"
    by (auto simp: ensureInitialized_def split: if_splits)
  with assms show ?thesis
    by (auto simp: renderAndCache_def Let_def f i split: option.splits if_splits)
qed

lemma computeAndRender_colorize:
  assumes "ColorizeCreature regionColors
             \<in> set (snd (snd (computeAndRender env w cacheKey requestBody c speciesNameV name
                  wilds doms sp events)))"
    and "ColorizeCreature regionColors \<notin> set events"
  shows "ColorizeCreature regionColors
            \<in> set (snd (fetchCreatureImage env name sp
                 (assignOwn (DEFAULT_SERVER_SETTINGS env) ''game''
                    (orDefault (readProp requestBody ''game'') (JStr ''ASA'')))
                 (orDefault (readProp c ''colors'') (JArr (replicate 6 (JNum js_zero))))))"
  using assms
  by (auto simp: computeAndRender_def Let_def split: option.splits prod.splits
      dest!: renderAndCache_colorize dest: buildCreature_colors)

text \<open>
  X6.  The region colours of C8 in a run of the handler.  Whenever a run passes region
  colours to \<^verbatim>\<open>colorizeCreature\<close>, the request has parsed and passed validation, the
  string of its species name is a species of the table, there are six region colours,
  and region \<open>i\<close> has the looked-up colour of \<^verbatim>\<open>colors[i]\<close> of the creature (six zeros
  if the request has no \<^verbatim>\<open>colors\<close>) exactly when the species has region \<open>i\<close> enabled and
  that colour id is present and not zero.
\<close>

theorem handleInfographic_regionColors:
  assumes "ColorizeCreature regionColors \<in> set (snd (snd (handleInfographic env w request)))"
    and "i < 6"
  shows "\<exists>requestBody c speciesNameV wilds doms name entry.
       jsonParse env (bodyText request) = Some requestBody
     \<and> validate requestBody = Valid c speciesNameV wilds doms
     \<and> jsToString env speciesNameV = Some name
     \<and> getSpeciesInfo (speciesMetaJson env) name = Some (Meta entry)
     \<and> length regionColors = 6
     \<and> regionColors ! i =
        (if nth_opt (enabledColorRegions entry) i = Some True
            \<and> (\<exists>colorId.
                  elementAt (orDefault (readProp c ''colors'') (JArr (replicate 6 (JNum js_zero)))) i
                    = Some colorId
                  \<and> colorId \<noteq> JNull \<and> \<not> strictEqualsNumber colorId js_zero)
         then (case getColor (colorMapLoop (arkColorToSrgb env) [] (colorsJson env))
                      (orDefault
                         (elementAt (orDefault (readProp c ''colors'')
                            (JArr (replicate 6 (JNum js_zero)))) i)
                         (JNum js_zero))
                 of (r, g, b, a) \<Rightarrow> Some (r, g, b))
         else None)"
proof -
  let ?key = "buildCacheKey env request"
  let ?colorMap = "colorMapLoop (arkColorToSrgb env) [] (colorsJson env)"
  from assms(1) obtain requestBody c speciesNameV wilds doms name sp where
    p: "jsonParse env (bodyText request) = Some requestBody"
    and v: "validate requestBody = Valid c speciesNameV wilds doms"
    and n: "jsToString env speciesNameV = Some name"
    and s: "getSpeciesInfo (speciesMetaJson env) name = Some sp"
    and run: "ColorizeCreature regionColors
       \<in> set (snd (snd (computeAndRender env w ?key requestBody c speciesNameV name wilds doms sp
            [CacheMatch ?key, GetSpeciesInfo speciesNameV])))"
    by (auto simp: handleInfographic_def Let_def split: option.splits validation.splits)
  let ?colors = "orDefault (readProp c ''colors'') (JArr (replicate 6 (JNum js_zero)))"
  have "ColorizeCreature regionColors \<notin> set [CacheMatch ?key, GetSpeciesInfo speciesNameV]"
    by simp
  from computeAndRender_colorize [OF run this]
  have r: "resolveRegionColors ?colorMap sp ?colors = Some regionColors"
    by (rule fetchCreatureImage_colorize)
  then obtain entry where sp: "sp = Meta entry"
    by (cases sp) (simp_all add: resolveRegionColors_def)
  with r have "regionColors = map (regionColor ?colorMap (enabledColorRegions entry) ?colors) [0..<6]"
    by (simp add: resolveRegionColors_Meta)
  then have "length regionColors = 6"
    and "regionColors ! i = regionColor ?colorMap (enabledColorRegions entry) ?colors i"
    using assms(2) by simp_all
  with p v n s sp show ?thesis
    by (simp only: regionColor_eq) blast
qed

lemma example_colors:
  "orDefault (readProp exampleCreature ''colors'') (JArr (replicate 6 (JNum js_zero)))
     = JArr (map JNum [js_one, js_zero, js_zero, ten, js_zero, js_zero])"
  by (simp add: exampleCreature_def)

lemma example_trace:
  "ColorizeCreature [Some (ten, ten, ten), None, None, None, None, None]
     \<in> set (snd (snd (handleInfographic exampleEnv exampleWorld exampleRequest)))"
proof -
  have "nth_opt (map JNum [js_zero, js_zero, ten, js_zero, js_zero, js_zero,
                     js_zero, js_zero, js_zero, js_zero, js_zero, js_zero]) 2 = Some (JNum ten)"
    by (simp add: nth_opt_def)
  from buildCreature_numbers [OF this, of exampleEnv "JStr ''Rex''" exampleCreature
      "replicate 12 js_zero" "[]" "[]"]
  obtain creature where
    b: "buildCreature exampleEnv (JStr ''Rex'') exampleCreature
          (map JNum [js_zero, js_zero, ten, js_zero, js_zero, js_zero,
                     js_zero, js_zero, js_zero, js_zero, js_zero, js_zero])
          (map JNum (replicate 12 js_zero)) [] [] = Some creature"
    by blast
  have c: "colors creature = JArr (map JNum [js_one, js_zero, js_zero, ten, js_zero, js_zero])"
    using buildCreature_colors [OF b] by (simp only: example_colors)
  have server: "assignOwn (DEFAULT_SERVER_SETTINGS exampleEnv) ''game''
      (orDefault (readProp exampleBody ''game'') (JStr ''ASA'')) = [(''game'', JStr ''ASA'')]"
    by (simp add: exampleEnv_def exampleBody_def)
  obtain img where
    f: "fetchCreatureImage exampleEnv ''Rex'' (Meta (speciesMetaEntry exampleSpecies []))
          [(''game'', JStr ''ASA'')]
          (JArr (map JNum [js_one, js_zero, js_zero, ten, js_zero, js_zero]))
        = (img, [SpriteGet ''Rex_ASA.png'', SpriteGet ''Rex_ASA_m.png'',
            ColorizeCreature [Some (ten, ten, ten), None, None, None, None, None]])"
    using example_image
    by (cases "fetchCreatureImage exampleEnv ''Rex'' (Meta (speciesMetaEntry exampleSpecies []))
          [(''game'', JStr ''ASA'')]
          (JArr (map JNum [js_one, js_zero, js_zero, ten, js_zero, js_zero]))") simp
  have o: "orDefault (readProp exampleBody ''options'') (JObj []) = JObj []"
    by (simp add: exampleBody_def)
  show ?thesis
    unfolding handleInfographic_known [OF example_miss example_parse example_valid
          example_name example_known]
    by (simp add: computeAndRender_def example_tamed example_stats b Let_def
        renderAndCache_def server c f o example_svg del: list.map map_replicate)
qed

theorem handleInfographic_regionColors_witness:
  "ColorizeCreature [Some (ten, ten, ten), None, None, None, None, None]
     \<in> set (snd (snd (handleInfographic exampleEnv exampleWorld exampleRequest)))
   \<and> (\<exists>requestBody c speciesNameV wilds doms name entry.
       jsonParse exampleEnv (bodyText exampleRequest) = Some requestBody
     \<and> validate requestBody = Valid c speciesNameV wilds doms
     \<and> jsToString exampleEnv speciesNameV = Some name
     \<and> getSpeciesInfo (speciesMetaJson exampleEnv) name = Some (Meta entry)
     \<and> [Some (ten, ten, ten), None, None, None, None, None] ! 3 =
        (if nth_opt (enabledColorRegions entry) 3 = Some True
            \<and> (\<exists>colorId.
                  elementAt (orDefault (readProp c ''colors'') (JArr (replicate 6 (JNum js_zero)))) 3
                    = Some colorId
                  \<and> colorId \<noteq> JNull \<and> \<not> strictEqualsNumber colorId js_zero)
         then (case getColor (colorMapLoop (arkColorToSrgb exampleEnv) [] (colorsJson exampleEnv))
                      (orDefault
                         (elementAt (orDefault (readProp c ''colors'')
                            (JArr (replicate 6 (JNum js_zero)))) 3)
                         (JNum js_zero))
                 of (r, g, b, a) \<Rightarrow> Some (r, g, b))
         else None))"
proof -
  have i: "(3::nat) < 6" by simp
  from handleInfographic_regionColors [OF example_trace i] example_trace show ?thesis
    by blast
qed

end
